theory Spec2Isabelle
  imports
    Complex_Main
    "HOL-Library.AList"
    "HOL-Library.Char_ord"
    "HOL-Library.List_Lexorder"
    "HOL-Library.Multiset"
begin

section \<open>Python values, errors and strings\<close>

text \<open>
  The values that flow through \<^verbatim>\<open>config.py\<close> and \<^verbatim>\<open>main.py\<close> are the values
  \<^verbatim>\<open>json\<close> produces: \<^verbatim>\<open>None\<close>, booleans, unbounded integers, floats, strings, lists
  and dictionaries with string keys. A dictionary is an association list in insertion
  order; lookup is \<open>map_of\<close> and item assignment is \<open>AList.update\<close> (an existing key keeps
  its place, a new key goes last), as in Python.

  A string is a \<open>char list\<close> holding the UTF-8 bytes of the Python string. The string
  operations defined here look for an ASCII character (a dot, a slash, a bracket), and
  an ASCII byte of UTF-8 text is always that character, so they act on the bytes as
  Python acts on the string. A float is the value of a double, written as a decimal:
  \<open>FDec m e\<close> stands for \<open>m * 10 ^ e\<close> (every finite double has such a form, zero is
  \<open>m = 0\<close>), \<open>FInf True\<close> is \<^verbatim>\<open>inf\<close>, \<open>FInf False\<close> is \<^verbatim>\<open>-inf\<close>.
\<close>

datatype pyfloat = FDec int int | FInf bool | FNan

datatype pyval =
    PNone
  | PBool bool
  | PInt int
  | PFloat pyfloat
  | PStr string
  | PList "pyval list"
  | PDict "(string \<times> pyval) list"

datatype error =
    ValueError
  | JSONDecodeError
  | KeyError string
  | TypeError
  | OSError
  | IndexError
  | InvalidTokenError
  | HTTPException nat string

definition replace_char :: "char \<Rightarrow> char \<Rightarrow> string \<Rightarrow> string" where
  "replace_char a b s = map (\<lambda>c. if c = a then b else c) s"

text \<open>\<^verbatim>\<open>s.split(sep)\<close> for a one-character separator: never the empty list.\<close>

fun split_on :: "char \<Rightarrow> string \<Rightarrow> string list" where
  "split_on sep [] = [[]]"
| "split_on sep (c # cs) =
     (if c = sep then [] # split_on sep cs
      else (case split_on sep cs of w # ws \<Rightarrow> (c # w) # ws | [] \<Rightarrow> [[c]]))"

definition startswith :: "char \<Rightarrow> string \<Rightarrow> bool" where
  "startswith c s = (case s of [] \<Rightarrow> False | d # _ \<Rightarrow> d = c)"

definition endswith :: "string \<Rightarrow> string \<Rightarrow> bool" where
  "endswith suf s = (length suf \<le> length s \<and> drop (length s - length suf) s = suf)"

text \<open>\<^verbatim>\<open>str(n)\<close> for an integer.\<close>

definition digit_char :: "nat \<Rightarrow> char" where
  "digit_char d = ''0123456789'' ! (d mod 10)"

fun str_nat :: "nat \<Rightarrow> string" where
  "str_nat n = (if n < 10 then [digit_char n] else str_nat (n div 10) @ [digit_char (n mod 10)])"

definition str_int :: "int \<Rightarrow> string" where
  "str_int i = (if i < 0 then CHR ''-'' # str_nat (nat (- i)) else str_nat (nat i))"

text \<open>Truth value testing (\<^verbatim>\<open>bool(v)\<close>, \<^verbatim>\<open>if v\<close>, \<^verbatim>\<open>a and b\<close>).\<close>

fun truthy :: "pyval \<Rightarrow> bool" where
  "truthy PNone = False"
| "truthy (PBool b) = b"
| "truthy (PInt i) = (i \<noteq> 0)"
| "truthy (PFloat (FDec m e)) = (m \<noteq> 0)"
| "truthy (PFloat (FInf b)) = True"
| "truthy (PFloat FNan) = True"
| "truthy (PStr s) = (s \<noteq> [])"
| "truthy (PList xs) = (xs \<noteq> [])"
| "truthy (PDict d) = (d \<noteq> [])"

section \<open>The external libraries and the builtins\<close>

text \<open>
  \<^verbatim>\<open>json\<close>, \<^verbatim>\<open>jwt\<close> (PyJWT) and \<^verbatim>\<open>httpx\<close> are not code of this repository, and the
  builtins \<^verbatim>\<open>int\<close>, \<^verbatim>\<open>float\<close>, \<^verbatim>\<open>str.lower\<close> and \<^verbatim>\<open>str.upper\<close> rest on the Unicode
  tables and on rounding to binary64: the model takes all of them as parameters, so
  every theorem stated for a library \<open>L\<close> holds for whatever they compute. An exception
  that comes from a limit of the interpreter (the recursion limit, the bound on the
  number of digits of an integer) is not modelled.
  \<^item> \<open>py_int s\<close>: \<^verbatim>\<open>int(s)\<close> on a string; \<open>None\<close> is \<^verbatim>\<open>ValueError\<close>.
  \<^item> \<open>py_float s\<close>: \<^verbatim>\<open>float(s)\<close> on a string, the double it rounds to; \<open>None\<close> is
    \<^verbatim>\<open>ValueError\<close>.
  \<^item> \<open>py_lower s\<close>, \<open>py_upper s\<close>: \<^verbatim>\<open>s.lower()\<close>, \<^verbatim>\<open>s.upper()\<close>.
  \<^item> \<open>json_loads\<close>: \<^verbatim>\<open>json.loads\<close>; \<open>None\<close> is \<^verbatim>\<open>json.JSONDecodeError\<close>.
  \<^item> \<open>json_dumps ascii v\<close>: \<^verbatim>\<open>json.dumps(v, indent=2, ensure_ascii=ascii)\<close>.
  \<^item> \<open>jwt_encode payload key\<close>: \<^verbatim>\<open>jwt.encode(payload, key, algorithm="HS256")\<close>.
  \<^item> \<open>jwt_decode token key\<close>: \<^verbatim>\<open>jwt.decode(token, key, algorithms=["HS256"])\<close>.
  \<^item> \<open>http_get url\<close>: \<^verbatim>\<open>httpx.AsyncClient().get(url)\<close>, giving the status code and
    the body.
  \<^item> \<open>py_format v\<close>: the text an f-string puts for \<open>v\<close> (\<^verbatim>\<open>str(v)\<close>).
  \<^item> \<open>exc_str e\<close>: \<^verbatim>\<open>str(e)\<close> of a caught exception.
\<close>

record pylib =
  py_int :: "string \<Rightarrow> int option"
  py_float :: "string \<Rightarrow> pyfloat option"
  py_lower :: "string \<Rightarrow> string"
  py_upper :: "string \<Rightarrow> string"
  json_loads :: "string \<Rightarrow> pyval option"
  json_dumps :: "bool \<Rightarrow> pyval \<Rightarrow> string"
  jwt_encode :: "pyval \<Rightarrow> pyval \<Rightarrow> error + string"
  jwt_decode :: "pyval \<Rightarrow> pyval \<Rightarrow> error + pyval"
  http_get :: "pyval \<Rightarrow> error + (int \<times> string)"
  py_format :: "pyval \<Rightarrow> string"
  exc_str :: "error \<Rightarrow> string"

section \<open>config.py\<close>

subsection \<open>Coercion of environment values\<close>

text \<open>
  \<^verbatim>\<open>Config._convert_env_value\<close>: the boolean words first; then one numeric parse,
  \<^verbatim>\<open>float\<close> if the text holds a dot and \<^verbatim>\<open>int\<close> if not; then \<^verbatim>\<open>json.loads\<close> for a
  text that starts with a bracket or a brace; else the text itself.
\<close>

definition convert_env_value :: "('z pylib_scheme) \<Rightarrow> string \<Rightarrow> pyval" where
  "convert_env_value L v =
     (if py_lower L v = ''true'' \<or> py_lower L v = ''false'' then PBool (py_lower L v = ''true'')
      else
        (case (if CHR ''.'' \<in> set v then map_option PFloat (py_float L v)
               else map_option PInt (py_int L v)) of
           Some n \<Rightarrow> n
         | None \<Rightarrow>
             if startswith CHR ''['' v \<or> startswith CHR ''{'' v then
               (case json_loads L v of Some j \<Rightarrow> j | None \<Rightarrow> PStr v)
             else PStr v))"

subsection \<open>The configuration object\<close>

text \<open>
  A \<^verbatim>\<open>Config\<close> object: the path of its file and the tree \<^verbatim>\<open>_config\<close>. The disk maps a
  path to the text of the file there; \<open>wr p\<close> says whether \<^verbatim>\<open>open(p, 'w')\<close> succeeds; the
  process environment maps a variable's name to its value.
\<close>

record config =
  config_file :: string
  tree :: pyval

type_synonym disk = "string \<Rightarrow> string option"

type_synonym environ = "string \<Rightarrow> string option"

definition default_items :: "(string \<times> pyval) list" where
  "default_items =
     [(''server'', PDict
         [(''host'', PStr ''10.0.51.143''),
          (''port'', PInt 8000),
          (''debug'', PBool False)]),
      (''onlyoffice'', PDict
         [(''server_url'', PStr ''http://10.0.51.143:8080''),
          (''secret'', PStr ''wIUxuAv0mXxom895nEGPKG3Bw3hm''),
          (''api_js_url'', PStr ''http://10.0.51.143:8080/web-apps/apps/api/documents/api.js''),
          (''jwt_enabled'', PBool True),
          (''allow_private_ip'', PBool True),
          (''allow_meta_ip'', PBool True),
          (''use_unauthorized_storage'', PBool True)]),
      (''storage'', PDict
         [(''upload_directory'', PStr ''uploads''),
          (''max_file_size'', PInt 104857600),
          (''allowed_extensions'', PList
             [PStr ''.docx'', PStr ''.xlsx'', PStr ''.pptx'', PStr ''.doc'',
              PStr ''.xls'', PStr ''.ppt'', PStr ''.txt'', PStr ''.pdf''])]),
      (''security'', PDict
         [(''cors_origins'', PList [PStr ''*'']),
          (''cors_credentials'', PBool True),
          (''cors_methods'', PList [PStr ''*'']),
          (''cors_headers'', PList [PStr ''*''])]),
      (''ui'', PDict
         [(''language'', PStr ''zh-CN''),
          (''title'', PStr ''OnlyOffice Document Editor''),
          (''subtitle'', PStr
             [CHR 0xE5, CHR 0x9C, CHR 0xA8, CHR 0xE7, CHR 0xBA, CHR 0xBF, CHR 0xE6, CHR 0x96,
              CHR 0x87, CHR 0xE6, CHR 0xA1, CHR 0xA3, CHR 0xE7, CHR 0xBC, CHR 0x96, CHR 0xE8,
              CHR 0xBE, CHR 0x91, CHR 0xE5, CHR 0x92, CHR 0x8C, CHR 0xE5, CHR 0x8D, CHR 0x8F,
              CHR 0xE4, CHR 0xBD, CHR 0x9C, CHR 0xE5, CHR 0xB9, CHR 0xB3, CHR 0xE5, CHR 0x8F,
              CHR 0xB0]),
          (''theme'', PStr ''default'')]),
      (''editor'', PDict
         [(''default_user_id'', PStr ''user1''),
          (''default_user_name'', PStr ''User''),
          (''auto_save'', PBool True),
          (''collaborative'', PBool True),
          (''comments'', PBool True),
          (''download'', PBool True),
          (''print'', PBool True)]),
      (''network'', PDict
         [(''timeout'', PInt 30),
          (''retry_attempts'', PInt 3),
          (''connection_check_interval'', PInt 5000)])]"

text \<open>\<^verbatim>\<open>_get_default_config\<close>.\<close>

definition default_config :: pyval where
  "default_config = PDict default_items"

text \<open>
  \<^verbatim>\<open>save_config\<close>: the write is inside \<^verbatim>\<open>try\<close>; a failure is printed and the disk
  stays as it was.
\<close>

definition save_config ::
  "('z pylib_scheme) \<Rightarrow> (string \<Rightarrow> bool) \<Rightarrow> disk \<Rightarrow> config \<Rightarrow> disk" where
  "save_config L wr fs c =
     (if wr (config_file c) then fs(config_file c \<mapsto> json_dumps L False (tree c)) else fs)"

text \<open>
  \<^verbatim>\<open>load_config\<close>: a file that exists is parsed, and any failure gives the default
  tree; a file that does not exist gives the default tree, which is then saved.
\<close>

definition load_config ::
  "('z pylib_scheme) \<Rightarrow> (string \<Rightarrow> bool) \<Rightarrow> disk \<Rightarrow> config \<Rightarrow> disk \<times> config" where
  "load_config L wr fs c =
     (case fs (config_file c) of
        Some txt \<Rightarrow>
          (case json_loads L txt of
             Some t \<Rightarrow> (fs, c\<lparr>tree := t\<rparr>)
           | None \<Rightarrow> (fs, c\<lparr>tree := default_config\<rparr>))
      | None \<Rightarrow>
          (save_config L wr fs (c\<lparr>tree := default_config\<rparr>), c\<lparr>tree := default_config\<rparr>))"

text \<open>\<^verbatim>\<open>Config.__init__\<close>.\<close>

definition Config_init ::
  "('z pylib_scheme) \<Rightarrow> (string \<Rightarrow> bool) \<Rightarrow> disk \<Rightarrow> string \<Rightarrow> disk \<times> config" where
  "Config_init L wr fs file = load_config L wr fs \<lparr>config_file = file, tree = PDict []\<rparr>"

text \<open>The name of the environment variable that overrides a key.\<close>

definition env_key :: "('z pylib_scheme) \<Rightarrow> string \<Rightarrow> string" where
  "env_key L key = replace_char CHR ''.'' CHR ''_'' (py_upper L key)"

text \<open>
  The loop of \<^verbatim>\<open>Config.get\<close> over the segments of the key; \<open>None\<close> is the early
  \<^verbatim>\<open>return default\<close>.
\<close>

fun walk :: "pyval \<Rightarrow> string list \<Rightarrow> pyval option" where
  "walk v [] = Some v"
| "walk (PDict d) (k # ks) = (case map_of d k of Some w \<Rightarrow> walk w ks | None \<Rightarrow> None)"
| "walk _ (k # ks) = None"

definition Config_get ::
  "('z pylib_scheme) \<Rightarrow> environ \<Rightarrow> config \<Rightarrow> string \<Rightarrow> pyval \<Rightarrow> pyval" where
  "Config_get L env c key dflt =
     (case env (env_key L key) of
        Some env_value \<Rightarrow> convert_env_value L env_value
      | None \<Rightarrow> (case walk (tree c) (split_on CHR ''.'' key) of Some v \<Rightarrow> v | None \<Rightarrow> dflt))"

text \<open>
  \<^verbatim>\<open>Config.set\<close> on the list of segments. The membership test, the subscript and the
  item assignment are defined on a dictionary; on every other value one of them raises
  \<^verbatim>\<open>TypeError\<close>. The dictionaries are updated in place in Python; here the updated
  tree is returned.
\<close>

fun set_keys :: "pyval \<Rightarrow> string list \<Rightarrow> pyval \<Rightarrow> error + pyval" where
  "set_keys c [] v = Inl IndexError"
| "set_keys (PDict d) [k] v = Inr (PDict (AList.update k v d))"
| "set_keys (PDict d) (k # k' # ks) v =
     (let d' = (if map_of d k = None then AList.update k (PDict []) d else d) in
      case map_of d' k of
        None \<Rightarrow> Inl (KeyError k)
      | Some sub \<Rightarrow>
          (case set_keys sub (k' # ks) v of
             Inl e \<Rightarrow> Inl e
           | Inr sub' \<Rightarrow> Inr (PDict (AList.update k sub' d'))))"
| "set_keys _ (k # ks) v = Inl TypeError"

definition Config_set :: "config \<Rightarrow> string \<Rightarrow> pyval \<Rightarrow> error + config" where
  "Config_set c key v =
     (case set_keys (tree c) (split_on CHR ''.'' key) v of
        Inl e \<Rightarrow> Inl e
      | Inr t \<Rightarrow> Inr (c\<lparr>tree := t\<rparr>))"

text \<open>The typed accessors.\<close>

definition server_host :: "('z pylib_scheme) \<Rightarrow> environ \<Rightarrow> config \<Rightarrow> pyval" where
  "server_host L env c = Config_get L env c ''server.host'' (PStr ''10.0.51.143'')"

definition server_port :: "('z pylib_scheme) \<Rightarrow> environ \<Rightarrow> config \<Rightarrow> pyval" where
  "server_port L env c = Config_get L env c ''server.port'' (PInt 8000)"

definition server_url :: "('z pylib_scheme) \<Rightarrow> environ \<Rightarrow> config \<Rightarrow> string" where
  "server_url L env c =
     ''http://'' @ py_format L (server_host L env c) @ '':'' @ py_format L (server_port L env c)"

definition onlyoffice_secret :: "('z pylib_scheme) \<Rightarrow> environ \<Rightarrow> config \<Rightarrow> pyval" where
  "onlyoffice_secret L env c =
     Config_get L env c ''onlyoffice.secret'' (PStr ''wIUxuAv0mXxom895nEGPKG3Bw3hm'')"

section \<open>main.py\<close>

text \<open>
  The upload directory is the list of its files, each a name and its content, in the
  order in which the directory is enumerated. A file is looked up by its name and
  written with \<open>AList.update\<close>; names are compared as they are written (no path is
  normalised), and reads and writes in the upload directory are taken to succeed: the
  content of a sidecar is the text read from it.
  What a handler takes from its surroundings is an argument: the identifier that
  \<^verbatim>\<open>uuid.uuid4()\<close> draws, the text of \<^verbatim>\<open>datetime.now().isoformat()\<close>, the reading of
  \<^verbatim>\<open>time.time()\<close>.
\<close>

type_synonym directory = "(string \<times> string) list"

text \<open>\<^verbatim>\<open>v[k]\<close> for a string \<open>k\<close>.\<close>

definition py_getitem :: "pyval \<Rightarrow> string \<Rightarrow> error + pyval" where
  "py_getitem v k =
     (case v of
        PDict d \<Rightarrow> (case map_of d k of Some w \<Rightarrow> Inr w | None \<Rightarrow> Inl (KeyError k))
      | _ \<Rightarrow> Inl TypeError)"

text \<open>\<^verbatim>\<open>v[k] = w\<close> for a string \<open>k\<close>.\<close>

definition py_setitem :: "pyval \<Rightarrow> string \<Rightarrow> pyval \<Rightarrow> error + pyval" where
  "py_setitem v k w =
     (case v of PDict d \<Rightarrow> Inr (PDict (AList.update k w d)) | _ \<Rightarrow> Inl TypeError)"

text \<open>
  \<^verbatim>\<open>Path(s).name\<close> and \<^verbatim>\<open>Path(s).suffix\<close> on a POSIX path (Python up to 3.13):
  the name is the last component that is neither empty nor a single dot, and the
  suffix starts at the last dot of the name, unless that dot is its first or its last
  character.
\<close>

definition path_name :: "string \<Rightarrow> string" where
  "path_name s =
     (case filter (\<lambda>p. p \<noteq> [] \<and> p \<noteq> ''.'') (split_on CHR ''/'' s) of
        [] \<Rightarrow> []
      | p # ps \<Rightarrow> last (p # ps))"

definition rfind_dot :: "string \<Rightarrow> nat option" where
  "rfind_dot s =
     (case dropWhile (\<lambda>c. c \<noteq> CHR ''.'') (rev s) of
        [] \<Rightarrow> None
      | _ # r \<Rightarrow> Some (length r))"

definition path_suffix :: "string \<Rightarrow> string" where
  "path_suffix s =
     (case rfind_dot (path_name s) of
        None \<Rightarrow> []
      | Some i \<Rightarrow> if 0 < i \<and> i < length (path_name s) - 1 then drop i (path_name s) else [])"

subsection \<open>Upload and listing\<close>

text \<open>\<^verbatim>\<open>upload_file\<close>: the response, or the exception raised, and the directory afterwards.\<close>

definition upload_file ::
  "('z pylib_scheme) \<Rightarrow> directory \<Rightarrow> string \<Rightarrow> string \<Rightarrow> string option \<Rightarrow> string
     \<Rightarrow> (error + pyval) \<times> directory" where
  "upload_file L dir file_id now filename content =
     (case filename of
        None \<Rightarrow> (Inl (HTTPException 400 ''No file selected''), dir)
      | Some fname \<Rightarrow>
          if fname = [] then (Inl (HTTPException 400 ''No file selected''), dir)
          else
            (let file_extension = path_suffix fname;
                 stored_filename = file_id @ file_extension;
                 dir1 = AList.update stored_filename content dir;
                 metadata = PDict
                   [(''id'', PStr file_id),
                    (''original_name'', PStr fname),
                    (''stored_name'', PStr stored_filename),
                    (''upload_time'', PStr now),
                    (''size'', PInt (int (length content)))];
                 dir2 = AList.update (file_id @ ''.json'') (json_dumps L True metadata) dir1
             in (Inr (PDict [(''message'', PStr ''File uploaded successfully''),
                             (''file_id'', PStr file_id)]), dir2)))"

text \<open>The entry \<^verbatim>\<open>list_files\<close> appends for one parsed sidecar.\<close>

definition file_summary :: "pyval \<Rightarrow> error + pyval" where
  "file_summary metadata =
     (case py_getitem metadata ''id'' of
        Inl e \<Rightarrow> Inl e
      | Inr i \<Rightarrow>
          (case py_getitem metadata ''original_name'' of
             Inl e \<Rightarrow> Inl e
           | Inr n \<Rightarrow>
               (case py_getitem metadata ''upload_time'' of
                  Inl e \<Rightarrow> Inl e
                | Inr t \<Rightarrow>
                    (case py_getitem metadata ''size'' of
                       Inl e \<Rightarrow> Inl e
                     | Inr z \<Rightarrow>
                         Inr (PDict [(''id'', i), (''name'', n),
                                     (''upload_time'', t), (''size'', z)])))))"

text \<open>
  The loop of \<^verbatim>\<open>list_files\<close> over \<^verbatim>\<open>UPLOAD_DIR.glob("*.json")\<close>. Nothing in the loop
  catches an exception: the first sidecar that does not parse, or lacks a key, ends it.
\<close>

fun collect_files :: "('z pylib_scheme) \<Rightarrow> directory \<Rightarrow> error + pyval list" where
  "collect_files L [] = Inr []"
| "collect_files L (f # fs) =
     (if endswith ''.json'' (fst f) then
        (case json_loads L (snd f) of
           None \<Rightarrow> Inl JSONDecodeError
         | Some metadata \<Rightarrow>
             (case file_summary metadata of
                Inl e \<Rightarrow> Inl e
              | Inr x \<Rightarrow>
                  (case collect_files L fs of
                     Inl e \<Rightarrow> Inl e
                   | Inr xs \<Rightarrow> Inr (x # xs))))
      else collect_files L fs)"

text \<open>
  The order \<^verbatim>\<open><\<close> on the keys of the sort: strings by their characters, numbers by
  their value; \<open>None\<close> is the \<^verbatim>\<open>TypeError\<close> of an unordered pair. (Python also orders
  two lists; a sidecar whose \<^verbatim>\<open>upload_time\<close> is a list is outside this model.)
\<close>

fun as_number :: "pyval \<Rightarrow> pyfloat option" where
  "as_number (PBool b) = Some (FDec (if b then 1 else 0) 0)"
| "as_number (PInt i) = Some (FDec i 0)"
| "as_number (PFloat f) = Some f"
| "as_number _ = None"

fun float_lt :: "pyfloat \<Rightarrow> pyfloat \<Rightarrow> bool" where
  "float_lt (FDec m e) (FDec m' e') =
     (m * 10 ^ nat (e - min e e') < m' * 10 ^ nat (e' - min e e'))"
| "float_lt (FDec m e) (FInf b) = b"
| "float_lt (FInf b) (FDec m e) = (\<not> b)"
| "float_lt (FInf b) (FInf b') = (\<not> b \<and> b')"
| "float_lt FNan _ = False"
| "float_lt _ FNan = False"

definition py_lt :: "pyval \<Rightarrow> pyval \<Rightarrow> bool option" where
  "py_lt a b =
     (case (a, b) of
        (PStr x, PStr y) \<Rightarrow> Some (x < y)
      | _ \<Rightarrow>
          (case (as_number a, as_number b) of
             (Some x, Some y) \<Rightarrow> Some (float_lt x y)
           | _ \<Rightarrow> None))"

text \<open>
  \<^verbatim>\<open>sorted(files, key=lambda x: x["upload_time"], reverse=True)\<close> on the list of keys
  and entries: descending, entries with equal keys in their first order. The sort is
  an insertion sort here; it raises when two keys it compares are not ordered.
\<close>

fun insort_rev ::
  "(pyval \<times> pyval) \<Rightarrow> (pyval \<times> pyval) list \<Rightarrow> error + (pyval \<times> pyval) list" where
  "insort_rev x [] = Inr [x]"
| "insort_rev x (y # ys) =
     (case py_lt (fst x) (fst y) of
        None \<Rightarrow> Inl TypeError
      | Some lt \<Rightarrow>
          if lt then (case insort_rev x ys of Inl e \<Rightarrow> Inl e | Inr zs \<Rightarrow> Inr (y # zs))
          else Inr (x # y # ys))"

fun sorted_rev :: "(pyval \<times> pyval) list \<Rightarrow> error + (pyval \<times> pyval) list" where
  "sorted_rev [] = Inr []"
| "sorted_rev (x # xs) = (case sorted_rev xs of Inl e \<Rightarrow> Inl e | Inr ys \<Rightarrow> insort_rev x ys)"

text \<open>The key of an entry of the listing: \<^verbatim>\<open>x["upload_time"]\<close>.\<close>

definition upload_time_key :: "pyval \<Rightarrow> pyval" where
  "upload_time_key x = (case py_getitem x ''upload_time'' of Inr t \<Rightarrow> t | Inl e \<Rightarrow> PNone)"

definition list_files :: "('z pylib_scheme) \<Rightarrow> directory \<Rightarrow> error + pyval list" where
  "list_files L dir =
     (case collect_files L dir of
        Inl e \<Rightarrow> Inl e
      | Inr files \<Rightarrow>
          (case sorted_rev (map (\<lambda>x. (upload_time_key x, x)) files) of
             Inl e \<Rightarrow> Inl e
           | Inr kxs \<Rightarrow> Inr (map snd kxs)))"

subsection \<open>Editor and preview configurations\<close>

text \<open>The first lines of both handlers: the sidecar must exist, and is parsed.\<close>

definition load_metadata :: "('z pylib_scheme) \<Rightarrow> directory \<Rightarrow> string \<Rightarrow> error + pyval" where
  "load_metadata L dir file_id =
     (case map_of dir (file_id @ ''.json'') of
        None \<Rightarrow> Inl (HTTPException 404 ''File not found'')
      | Some content \<Rightarrow>
          (case json_loads L content of None \<Rightarrow> Inl JSONDecodeError | Some metadata \<Rightarrow> Inr metadata))"

text \<open>
  \<^verbatim>\<open>Path(metadata["original_name"]).suffix.lower()\<close>, with the name: \<^verbatim>\<open>Path\<close> raises
  \<^verbatim>\<open>TypeError\<close> on a value that is not a string.
\<close>

definition original_extension ::
  "('z pylib_scheme) \<Rightarrow> pyval \<Rightarrow> error + (string \<times> string)" where
  "original_extension L metadata =
     (case py_getitem metadata ''original_name'' of
        Inl e \<Rightarrow> Inl e
      | Inr n \<Rightarrow>
          (case n of PStr s \<Rightarrow> Inr (s, py_lower L (path_suffix s)) | _ \<Rightarrow> Inl TypeError))"

definition document_type :: "string \<Rightarrow> string" where
  "document_type file_extension =
     (if file_extension = ''.xlsx'' \<or> file_extension = ''.xls'' then ''cell''
      else if file_extension = ''.pptx'' \<or> file_extension = ''.ppt'' then ''slide''
      else ''word'')"

text \<open>\<^verbatim>\<open>int(t)\<close> for the float \<^verbatim>\<open>time.time()\<close> returns: truncation towards zero.\<close>

definition py_trunc :: "rat \<Rightarrow> int" where
  "py_trunc t = (if 0 \<le> t then \<lfloor>t\<rfloor> else \<lceil>t\<rceil>)"

definition edit_key :: "string \<Rightarrow> rat \<Rightarrow> string" where
  "edit_key file_id t = ''edit_'' @ file_id @ ''_'' @ str_int (py_trunc t)"

definition preview_key :: "string \<Rightarrow> rat \<Rightarrow> string" where
  "preview_key file_id t = ''preview_'' @ file_id @ ''_'' @ str_int (py_trunc t)"

text \<open>
  The last lines of both handlers: when the secret and \<^verbatim>\<open>onlyoffice.jwt_enabled\<close> are
  both true, the whole configuration is signed and the token stored under \<^verbatim>\<open>token\<close>;
  the debug line then slices the secret (\<^verbatim>\<open>secret[:10]\<close>), which raises on a value
  that is neither a string nor a list (\<^verbatim>\<open>TypeError\<close>; on a dictionary, Python 3.12
  raises \<^verbatim>\<open>KeyError\<close> instead).
\<close>

definition attach_token ::
  "('z pylib_scheme) \<Rightarrow> environ \<Rightarrow> config \<Rightarrow> (string \<times> pyval) list \<Rightarrow> error + pyval" where
  "attach_token L env c cfg =
     (if truthy (onlyoffice_secret L env c)
         \<and> truthy (Config_get L env c ''onlyoffice.jwt_enabled'' (PBool True))
      then
        (case jwt_encode L (PDict cfg) (onlyoffice_secret L env c) of
           Inl e \<Rightarrow> Inl e
         | Inr token \<Rightarrow>
             (case onlyoffice_secret L env c of
                PStr s \<Rightarrow> Inr (PDict (AList.update ''token'' (PStr token) cfg))
              | PList xs \<Rightarrow> Inr (PDict (AList.update ''token'' (PStr token) cfg))
              | _ \<Rightarrow> Inl TypeError))
      else Inr (PDict cfg))"

text \<open>The dictionary \<^verbatim>\<open>editor_config\<close> as \<^verbatim>\<open>get_editor_config\<close> builds it.\<close>

definition editor_payload ::
  "('z pylib_scheme) \<Rightarrow> environ \<Rightarrow> config \<Rightarrow> string \<Rightarrow> rat \<Rightarrow> string \<Rightarrow> string
     \<Rightarrow> (string \<times> pyval) list" where
  "editor_payload L env c file_id t original_name file_extension =
     [(''document'', PDict
         [(''fileType'', PStr (drop 1 file_extension)),
          (''key'', PStr (edit_key file_id t)),
          (''title'', PStr original_name),
          (''url'', PStr (server_url L env c @ ''/download/'' @ file_id))]),
      (''documentType'', PStr (document_type file_extension)),
      (''editorConfig'', PDict
         [(''callbackUrl'', PStr (server_url L env c @ ''/callback/'' @ file_id)),
          (''lang'', Config_get L env c ''ui.language'' (PStr ''zh-CN'')),
          (''user'', PDict
             [(''id'', Config_get L env c ''editor.default_user_id'' (PStr ''user1'')),
              (''name'', Config_get L env c ''editor.default_user_name'' (PStr ''User''))])]),
      (''width'', PStr ''100%''),
      (''height'', PStr ''600px'')]"

definition get_editor_config ::
  "('z pylib_scheme) \<Rightarrow> environ \<Rightarrow> config \<Rightarrow> directory \<Rightarrow> rat \<Rightarrow> string \<Rightarrow> error + pyval" where
  "get_editor_config L env c dir t file_id =
     (case load_metadata L dir file_id of
        Inl e \<Rightarrow> Inl e
      | Inr metadata \<Rightarrow>
          (case original_extension L metadata of
             Inl e \<Rightarrow> Inl e
           | Inr (original_name, file_extension) \<Rightarrow>
               attach_token L env c
                 (editor_payload L env c file_id t original_name file_extension)))"

text \<open>The dictionary \<^verbatim>\<open>preview_config\<close> as \<^verbatim>\<open>get_preview_config\<close> builds it.\<close>

definition preview_payload ::
  "('z pylib_scheme) \<Rightarrow> environ \<Rightarrow> config \<Rightarrow> string \<Rightarrow> rat \<Rightarrow> string \<Rightarrow> string
     \<Rightarrow> (string \<times> pyval) list" where
  "preview_payload L env c file_id t original_name file_extension =
     [(''document'', PDict
         [(''fileType'', PStr (drop 1 file_extension)),
          (''key'', PStr (preview_key file_id t)),
          (''title'', PStr original_name),
          (''url'', PStr (server_url L env c @ ''/download/'' @ file_id))]),
      (''documentType'', PStr (document_type file_extension)),
      (''editorConfig'', PDict
         [(''mode'', PStr ''view''),
          (''lang'', Config_get L env c ''ui.language'' (PStr ''zh-CN'')),
          (''user'', PDict
             [(''id'', Config_get L env c ''editor.default_user_id'' (PStr ''user1'')),
              (''name'', Config_get L env c ''editor.default_user_name'' (PStr ''User''))]),
          (''customization'', PDict
             [(''autosave'', PBool False),
              (''comments'', PBool False),
              (''compactToolbar'', PBool True),
              (''help'', PBool False),
              (''hideRightMenu'', PBool True),
              (''hideRulers'', PBool True),
              (''integrationMode'', PStr ''embed''),
              (''toolbarNoTabs'', PBool True),
              (''zoom'', PInt 100),
              (''goback'', PBool False),
              (''chat'', PBool False),
              (''plugins'', PBool False),
              (''macros'', PBool False)]),
          (''embedded'', PDict
             [(''saveUrl'', PStr []),
              (''embedUrl'', PStr []),
              (''shareUrl'', PStr []),
              (''toolbarDocked'', PStr ''top'')])]),
      (''width'', PStr ''100%''),
      (''height'', PStr ''600px'')]"

definition get_preview_config ::
  "('z pylib_scheme) \<Rightarrow> environ \<Rightarrow> config \<Rightarrow> directory \<Rightarrow> rat \<Rightarrow> string \<Rightarrow> error + pyval" where
  "get_preview_config L env c dir t file_id =
     (case load_metadata L dir file_id of
        Inl e \<Rightarrow> Inl e
      | Inr metadata \<Rightarrow>
          (case original_extension L metadata of
             Inl e \<Rightarrow> Inl e
           | Inr (original_name, file_extension) \<Rightarrow>
               attach_token L env c
                 (preview_payload L env c file_id t original_name file_extension)))"

subsection \<open>The callback of the document server\<close>

text \<open>\<^verbatim>\<open>verify_jwt_token\<close>: an invalid token becomes the HTTP error 401.\<close>

definition verify_jwt_token ::
  "('z pylib_scheme) \<Rightarrow> environ \<Rightarrow> config \<Rightarrow> pyval \<Rightarrow> error + pyval" where
  "verify_jwt_token L env c token =
     (case jwt_decode L token (onlyoffice_secret L env c) of
        Inl e \<Rightarrow> if e = InvalidTokenError then Inl (HTTPException 401 ''Invalid token'') else Inl e
      | Inr payload \<Rightarrow> Inr payload)"

text \<open>\<^verbatim>\<open>status == 2\<close>: an integer or a float of value 2.\<close>

fun equals_two :: "pyval \<Rightarrow> bool" where
  "equals_two (PInt i) = (i = 2)"
| "equals_two (PFloat (FDec m e)) = (if 0 \<le> e then m * 10 ^ nat e = 2 else m = 2 * 10 ^ nat (- e))"
| "equals_two _ = False"

definition error_reply :: "('z pylib_scheme) \<Rightarrow> error \<Rightarrow> pyval" where
  "error_reply L e = PDict [(''error'', PInt 1), (''message'', PStr (exc_str L e))]"

definition ok_reply :: pyval where
  "ok_reply = PDict [(''error'', PInt 0)]"

text \<open>
  The branch on \<^verbatim>\<open>status\<close>, inside the handler's \<^verbatim>\<open>try\<close>: an exception anywhere gives
  the error reply, and what was written before it stays written. (\<^verbatim>\<open>import httpx\<close> is
  taken to succeed.)
\<close>

definition save_updated ::
  "('z pylib_scheme) \<Rightarrow> directory \<Rightarrow> string \<Rightarrow> string \<Rightarrow> string \<Rightarrow> pyval \<times> directory" where
  "save_updated L dir now file_id body =
     (case map_of dir (file_id @ ''.json'') of
        None \<Rightarrow> (ok_reply, dir)
      | Some content \<Rightarrow>
          (case json_loads L content of
             None \<Rightarrow> (error_reply L JSONDecodeError, dir)
           | Some metadata \<Rightarrow>
               (case py_getitem metadata ''stored_name'' of
                  Inl e \<Rightarrow> (error_reply L e, dir)
                | Inr n \<Rightarrow>
                    (case n of
                       PStr stored_name \<Rightarrow>
                         (case py_setitem metadata ''last_modified'' (PStr now) of
                            Inl e \<Rightarrow> (error_reply L e, AList.update stored_name body dir)
                          | Inr metadata' \<Rightarrow>
                              (ok_reply,
                               AList.update (file_id @ ''.json'') (json_dumps L True metadata')
                                 (AList.update stored_name body dir)))
                     | _ \<Rightarrow> (error_reply L TypeError, dir)))))"

definition status_branch ::
  "('z pylib_scheme) \<Rightarrow> directory \<Rightarrow> string \<Rightarrow> string \<Rightarrow> (string \<times> pyval) list
     \<Rightarrow> pyval \<times> directory" where
  "status_branch L dir now file_id request_data =
     (if equals_two (case map_of request_data ''status'' of Some s \<Rightarrow> s | None \<Rightarrow> PInt 0) then
        (case map_of request_data ''url'' of
           None \<Rightarrow> (ok_reply, dir)
         | Some download_url \<Rightarrow>
             if truthy download_url then
               (case http_get L download_url of
                  Inl e \<Rightarrow> (error_reply L e, dir)
                | Inr (status_code, body) \<Rightarrow>
                    if status_code = 200 then save_updated L dir now file_id body
                    else (ok_reply, dir))
             else (ok_reply, dir))
      else (ok_reply, dir))"

definition onlyoffice_callback ::
  "('z pylib_scheme) \<Rightarrow> environ \<Rightarrow> config \<Rightarrow> directory \<Rightarrow> string \<Rightarrow> string
     \<Rightarrow> (string \<times> pyval) list \<Rightarrow> pyval \<times> directory" where
  "onlyoffice_callback L env c dir now file_id request_data =
     (case (if truthy (Config_get L env c ''onlyoffice.jwt_enabled'' (PBool True))
            then map_of request_data ''token'' else None) of
        Some token \<Rightarrow>
          (case verify_jwt_token L env c token of
             Inl token_error \<Rightarrow>
               (PDict [(''error'', PInt 1), (''message'', PStr ''Invalid token'')], dir)
           | Inr payload \<Rightarrow> status_branch L dir now file_id request_data)
      | None \<Rightarrow> status_branch L dir now file_id request_data)"

section \<open>A reference instance of the libraries\<close>

text \<open>
  The examples below are evaluated with this instance. Its \<^verbatim>\<open>json\<close> is a parser and a
  printer for JSON text in ASCII, as \<^verbatim>\<open>json.loads\<close> and \<^verbatim>\<open>json.dumps(indent=2)\<close> read
  and write it, with two simplifications: an escape \<^verbatim>\<open>\uXXXX\<close> is read only below
  \<^verbatim>\<open>\u0080\<close>, and a float is written in exponent form (\<^verbatim>\<open>15e-1\<close> for 1.5), which reads
  back as the same float. Signing, the network and the text of exceptions are
  stand-ins: a token is the key behind a fixed prefix, and one URL answers 200.
\<close>

text \<open>
  \<^verbatim>\<open>str.lower\<close> and \<^verbatim>\<open>str.upper\<close> on ASCII text, and \<^verbatim>\<open>int\<close> and \<^verbatim>\<open>float\<close> on ASCII text
  whose value a double holds exactly.
\<close>

definition lower_char :: "char \<Rightarrow> char" where
  "lower_char c =
     (case map_of (zip ''ABCDEFGHIJKLMNOPQRSTUVWXYZ'' ''abcdefghijklmnopqrstuvwxyz'') c of
        Some d \<Rightarrow> d | None \<Rightarrow> c)"

definition upper_char :: "char \<Rightarrow> char" where
  "upper_char c =
     (case map_of (zip ''abcdefghijklmnopqrstuvwxyz'' ''ABCDEFGHIJKLMNOPQRSTUVWXYZ'') c of
        Some d \<Rightarrow> d | None \<Rightarrow> c)"

definition ascii_lower :: "string \<Rightarrow> string" where
  "ascii_lower s = map lower_char s"

definition ascii_upper :: "string \<Rightarrow> string" where
  "ascii_upper s = map upper_char s"

text \<open>
  The ASCII characters \<^verbatim>\<open>int()\<close> and \<^verbatim>\<open>float()\<close> strip from both ends of their
  argument: tab, newline, vertical tab, form feed, carriage return and the space.
\<close>

definition is_space :: "char \<Rightarrow> bool" where
  "is_space c = (c \<in> set [CHR 0x09, CHR 0x0A, CHR 0x0B, CHR 0x0C, CHR 0x0D, CHR 0x20])"

definition strip :: "string \<Rightarrow> string" where
  "strip s = rev (dropWhile is_space (rev (dropWhile is_space s)))"

definition is_digit :: "char \<Rightarrow> bool" where
  "is_digit c = (c \<in> set ''0123456789'')"

definition digit_val :: "char \<Rightarrow> nat" where
  "digit_val c = of_char c - 48"

definition nat_of_digits :: "string \<Rightarrow> nat" where
  "nat_of_digits ds = foldl (\<lambda>a c. 10 * a + digit_val c) 0 ds"

text \<open>
  The \<^verbatim>\<open>digitpart\<close> of Python's numeric grammar: digits, with single underscores
  allowed between two digits. The result is the digits without the underscores.
\<close>

fun digitpart :: "string \<Rightarrow> string option" where
  "digitpart [] = None"
| "digitpart [c] = (if is_digit c then Some [c] else None)"
| "digitpart (c # d # cs) =
     (if \<not> is_digit c then None
      else if d = CHR ''_'' then map_option ((#) c) (digitpart cs)
      else map_option ((#) c) (digitpart (d # cs)))"

definition split_sign :: "string \<Rightarrow> int \<times> string" where
  "split_sign s =
     (case s of
        [] \<Rightarrow> (1, [])
      | c # r \<Rightarrow> if c = CHR ''-'' then (- 1, r) else if c = CHR ''+'' then (1, r) else (1, s))"

text \<open>
  \<^verbatim>\<open>int(s)\<close> on a string, base 10: \<open>None\<close> is \<^verbatim>\<open>ValueError\<close>. (The bound on the
  number of digits that Python 3.11 added is not modelled.)
\<close>

definition ascii_int :: "string \<Rightarrow> int option" where
  "ascii_int s =
     (case split_sign (strip s) of
        (sg, body) \<Rightarrow> map_option (\<lambda>ds. sg * int (nat_of_digits ds)) (digitpart body))"

text \<open>Cut a string at the first character that satisfies \<open>P\<close>.\<close>

definition split_at :: "(char \<Rightarrow> bool) \<Rightarrow> string \<Rightarrow> string \<times> string option" where
  "split_at P s =
     (case dropWhile (\<lambda>c. \<not> P c) s of
        [] \<Rightarrow> (s, None)
      | _ # r \<Rightarrow> (takeWhile (\<lambda>c. \<not> P c) s, Some r))"

definition float_exponent :: "string option \<Rightarrow> int option" where
  "float_exponent ex =
     (case ex of
        None \<Rightarrow> Some 0
      | Some x \<Rightarrow>
          (case split_sign x of
             (sg, ds) \<Rightarrow> map_option (\<lambda>d. sg * int (nat_of_digits d)) (digitpart ds)))"

text \<open>
  The \<^verbatim>\<open>floatnumber\<close> of Python's grammar for \<^verbatim>\<open>float(s)\<close>:
  \<^verbatim>\<open>([digitpart] "." digitpart | digitpart ["."]) [("e" | "E") ["+" | "-"] digitpart]\<close>.
  The result is the mantissa and the decimal exponent.
\<close>

definition float_number :: "string \<Rightarrow> (int \<times> int) option" where
  "float_number s =
     (case split_at (\<lambda>c. c = CHR ''e'' \<or> c = CHR ''E'') s of
        (m, ex) \<Rightarrow>
          (case float_exponent ex of
             None \<Rightarrow> None
           | Some e \<Rightarrow>
               (case split_at (\<lambda>c. c = CHR ''.'') m of
                  (ip, None) \<Rightarrow> map_option (\<lambda>i. (int (nat_of_digits i), e)) (digitpart ip)
                | (ip, Some fp) \<Rightarrow>
                    if ip = [] then
                      map_option (\<lambda>f. (int (nat_of_digits f), e - int (length f))) (digitpart fp)
                    else
                      (case digitpart ip of
                         None \<Rightarrow> None
                       | Some i \<Rightarrow>
                           if fp = [] then Some (int (nat_of_digits i), e)
                           else map_option
                                  (\<lambda>f. (int (nat_of_digits (i @ f)), e - int (length f)))
                                  (digitpart fp)))))"

text \<open>\<^verbatim>\<open>float(s)\<close> on a string: \<open>None\<close> is \<^verbatim>\<open>ValueError\<close>.\<close>

definition ascii_float :: "string \<Rightarrow> pyfloat option" where
  "ascii_float s =
     (case split_sign (strip s) of
        (sg, body) \<Rightarrow>
          if ascii_lower body = ''inf'' \<or> ascii_lower body = ''infinity'' then Some (FInf (0 < sg))
          else if ascii_lower body = ''nan'' then Some FNan
          else map_option (\<lambda>(m, e). FDec (sg * m) e) (float_number body))"

definition json_ws :: "char \<Rightarrow> bool" where
  "json_ws c = (c \<in> set [CHR 0x20, CHR 0x09, CHR 0x0A, CHR 0x0D])"

definition skip_ws :: "string \<Rightarrow> string" where
  "skip_ws s = dropWhile json_ws s"

definition hex_val :: "char \<Rightarrow> nat option" where
  "hex_val c = map_of (zip ''0123456789abcdefABCDEF''
                 [0, 1, 2, 3, 4, 5, 6, 7, 8, 9, 10, 11, 12, 13, 14, 15, 10, 11, 12, 13, 14, 15]) c"

definition hex4 :: "char \<Rightarrow> char \<Rightarrow> char \<Rightarrow> char \<Rightarrow> nat option" where
  "hex4 a b c d =
     (case (hex_val a, hex_val b, hex_val c, hex_val d) of
        (Some w, Some x, Some y, Some z) \<Rightarrow> Some (((w * 16 + x) * 16 + y) * 16 + z)
      | _ \<Rightarrow> None)"

definition json_escapes :: "(char \<times> char) list" where
  "json_escapes =
     [(CHR 0x22, CHR 0x22), (CHR 0x5C, CHR 0x5C), (CHR ''/'', CHR ''/''),
      (CHR ''b'', CHR 0x08), (CHR ''f'', CHR 0x0C), (CHR ''n'', CHR 0x0A),
      (CHR ''r'', CHR 0x0D), (CHR ''t'', CHR 0x09)]"

text \<open>The body of a string, after its opening quote, up to the closing one.\<close>

fun scan_string :: "string \<Rightarrow> string \<Rightarrow> (string \<times> string) option" where
  "scan_string acc [] = None"
| "scan_string acc (c # cs) =
     (if c = CHR 0x22 then Some (rev acc, cs)
      else if c = CHR 0x5C then
        (case cs of
           [] \<Rightarrow> None
         | e # r \<Rightarrow>
             (case map_of json_escapes e of
                Some x \<Rightarrow> scan_string (x # acc) r
              | None \<Rightarrow>
                  (case r of
                     h1 # h2 # h3 # h4 # r' \<Rightarrow>
                       (case hex4 h1 h2 h3 h4 of
                          Some n \<Rightarrow>
                            if e = CHR ''u'' \<and> n < 128 then scan_string (char_of n # acc) r'
                            else None
                        | None \<Rightarrow> None)
                   | _ \<Rightarrow> None)))
      else if (of_char c :: nat) < 32 then None
      else scan_string (c # acc) cs)"

definition all_digits :: "string \<Rightarrow> bool" where
  "all_digits s = (s \<noteq> [] \<and> list_all is_digit s)"

text \<open>
  A JSON number:
  \<^verbatim>\<open>-?(0|[1-9][0-9]*)(\.[0-9]+)?([eE][-+]?[0-9]+)?\<close>, an integer when it has neither
  fraction nor exponent.
\<close>

definition json_number :: "string \<Rightarrow> pyval option" where
  "json_number t =
     (let body = (if startswith CHR ''-'' t then tl t else t) in
      case split_at (\<lambda>c. c = CHR ''e'' \<or> c = CHR ''E'') body of
        (m, ex) \<Rightarrow>
          (case split_at (\<lambda>c. c = CHR ''.'') m of
             (ip, fp) \<Rightarrow>
               if all_digits ip \<and> (ip = ''0'' \<or> \<not> startswith CHR ''0'' ip)
                  \<and> (case fp of None \<Rightarrow> True | Some f \<Rightarrow> all_digits f)
                  \<and> (case ex of
                        None \<Rightarrow> True
                      | Some x \<Rightarrow>
                          all_digits
                            (if startswith CHR ''+'' x \<or> startswith CHR ''-'' x then tl x else x))
               then
                 (if fp = None \<and> ex = None then map_option PInt (ascii_int t)
                  else map_option PFloat (ascii_float t))
               else None))"

definition is_prefix :: "string \<Rightarrow> string \<Rightarrow> bool" where
  "is_prefix p s = (take (length p) s = p)"

definition json_scalar :: "string \<Rightarrow> (pyval \<times> string) option" where
  "json_scalar s =
     (if is_prefix ''null'' s then Some (PNone, drop 4 s)
      else if is_prefix ''true'' s then Some (PBool True, drop 4 s)
      else if is_prefix ''false'' s then Some (PBool False, drop 5 s)
      else if is_prefix ''NaN'' s then Some (PFloat FNan, drop 3 s)
      else if is_prefix ''Infinity'' s then Some (PFloat (FInf True), drop 8 s)
      else if is_prefix ''-Infinity'' s then Some (PFloat (FInf False), drop 9 s)
      else
        (let t = takeWhile (\<lambda>c. c \<in> set ''+-0123456789.eE'') s in
         map_option (\<lambda>v. (v, drop (length t) s)) (json_number t)))"

text \<open>
  The parser, by recursive descent. The first argument bounds the number of nested
  calls; every call reads at least one character, so the length of the text is enough.
\<close>

fun parse_value :: "nat \<Rightarrow> string \<Rightarrow> (pyval \<times> string) option"
  and parse_items :: "nat \<Rightarrow> pyval list \<Rightarrow> string \<Rightarrow> (pyval list \<times> string) option"
  and parse_pairs ::
    "nat \<Rightarrow> (string \<times> pyval) list \<Rightarrow> string \<Rightarrow> ((string \<times> pyval) list \<times> string) option"
where
  "parse_value 0 s = None"
| "parse_value (Suc n) s =
     (if startswith CHR 0x22 s then
        map_option (\<lambda>(t, r). (PStr t, r)) (scan_string [] (tl s))
      else if startswith CHR ''['' s then
        (if startswith CHR '']'' (skip_ws (tl s)) then Some (PList [], tl (skip_ws (tl s)))
         else map_option (\<lambda>(xs, r). (PList xs, r)) (parse_items n [] (skip_ws (tl s))))
      else if startswith CHR ''{'' s then
        (if startswith CHR ''}'' (skip_ws (tl s)) then Some (PDict [], tl (skip_ws (tl s)))
         else map_option (\<lambda>(d, r). (PDict d, r)) (parse_pairs n [] (skip_ws (tl s))))
      else json_scalar s)"
| "parse_items 0 acc s = None"
| "parse_items (Suc n) acc s =
     (case parse_value n s of
        None \<Rightarrow> None
      | Some (v, r) \<Rightarrow>
          if startswith CHR '','' (skip_ws r) then
            parse_items n (acc @ [v]) (skip_ws (tl (skip_ws r)))
          else if startswith CHR '']'' (skip_ws r) then Some (acc @ [v], tl (skip_ws r))
          else None)"
| "parse_pairs 0 acc s = None"
| "parse_pairs (Suc n) acc s =
     (if startswith CHR 0x22 s then
        (case scan_string [] (tl s) of
           None \<Rightarrow> None
         | Some (k, r) \<Rightarrow>
             if startswith CHR '':'' (skip_ws r) then
               (case parse_value n (skip_ws (tl (skip_ws r))) of
                  None \<Rightarrow> None
                | Some (v, r') \<Rightarrow>
                    if startswith CHR '','' (skip_ws r') then
                      parse_pairs n (AList.update k v acc) (skip_ws (tl (skip_ws r')))
                    else if startswith CHR ''}'' (skip_ws r') then
                      Some (AList.update k v acc, tl (skip_ws r'))
                    else None)
             else None)
      else None)"

definition ref_loads :: "string \<Rightarrow> pyval option" where
  "ref_loads s =
     (case parse_value (Suc (length s)) (skip_ws s) of
        None \<Rightarrow> None
      | Some (v, r) \<Rightarrow> if skip_ws r = [] then Some v else None)"

definition hex_digit :: "nat \<Rightarrow> char" where
  "hex_digit d = ''0123456789abcdef'' ! (d mod 16)"

definition quote_char :: "char \<Rightarrow> string" where
  "quote_char c =
     (if c = CHR 0x22 then [CHR 0x5C, CHR 0x22]
      else if c = CHR 0x5C then [CHR 0x5C, CHR 0x5C]
      else if c = CHR 0x0A then [CHR 0x5C, CHR ''n'']
      else if c = CHR 0x0D then [CHR 0x5C, CHR ''r'']
      else if c = CHR 0x09 then [CHR 0x5C, CHR ''t'']
      else if c = CHR 0x08 then [CHR 0x5C, CHR ''b'']
      else if c = CHR 0x0C then [CHR 0x5C, CHR ''f'']
      else if (of_char c :: nat) < 32 then
        [CHR 0x5C, CHR ''u'', CHR ''0'', CHR ''0'', hex_digit (of_char c div 16), hex_digit (of_char c)]
      else [c])"

definition quote :: "string \<Rightarrow> string" where
  "quote s = CHR 0x22 # concat (map quote_char s) @ [CHR 0x22]"

definition float_text :: "pyfloat \<Rightarrow> string" where
  "float_text f =
     (case f of
        FDec m e \<Rightarrow> str_int m @ ''e'' @ str_int e
      | FInf b \<Rightarrow> (if b then ''Infinity'' else ''-Infinity'')
      | FNan \<Rightarrow> ''NaN'')"

fun indent :: "nat \<Rightarrow> string" where
  "indent 0 = []"
| "indent (Suc lvl) = CHR 0x20 # CHR 0x20 # indent lvl"

definition newline_indent :: "nat \<Rightarrow> string" where
  "newline_indent lvl = CHR 0x0A # indent lvl"

fun dumps_at :: "nat \<Rightarrow> pyval \<Rightarrow> string"
  and dumps_items :: "nat \<Rightarrow> pyval list \<Rightarrow> string"
  and dumps_pairs :: "nat \<Rightarrow> (string \<times> pyval) list \<Rightarrow> string"
where
  "dumps_at lvl PNone = ''null''"
| "dumps_at lvl (PBool b) = (if b then ''true'' else ''false'')"
| "dumps_at lvl (PInt i) = str_int i"
| "dumps_at lvl (PFloat f) = float_text f"
| "dumps_at lvl (PStr s) = quote s"
| "dumps_at lvl (PList xs) =
     (if xs = [] then ''[]''
      else ''['' @ newline_indent (Suc lvl) @ dumps_items (Suc lvl) xs @ newline_indent lvl @ '']'')"
| "dumps_at lvl (PDict d) =
     (if d = [] then ''{}''
      else ''{'' @ newline_indent (Suc lvl) @ dumps_pairs (Suc lvl) d @ newline_indent lvl @ ''}'')"
| "dumps_items lvl [] = []"
| "dumps_items lvl (x # xs) =
     dumps_at lvl x @ (if xs = [] then [] else '','' @ newline_indent lvl @ dumps_items lvl xs)"
| "dumps_pairs lvl [] = []"
| "dumps_pairs lvl (p # ps) =
     quote (fst p) @ '': '' @ dumps_at lvl (snd p)
       @ (if ps = [] then [] else '','' @ newline_indent lvl @ dumps_pairs lvl ps)"

definition ref_dumps :: "bool \<Rightarrow> pyval \<Rightarrow> string" where
  "ref_dumps ascii v = dumps_at 0 v"

definition ref_jwt_encode :: "pyval \<Rightarrow> pyval \<Rightarrow> error + string" where
  "ref_jwt_encode payload k = (case k of PStr s \<Rightarrow> Inr (''jwt.'' @ s) | _ \<Rightarrow> Inl TypeError)"

definition ref_jwt_decode :: "pyval \<Rightarrow> pyval \<Rightarrow> error + pyval" where
  "ref_jwt_decode token k =
     (case (token, k) of
        (PStr t, PStr s) \<Rightarrow> if t = ''jwt.'' @ s then Inr (PDict []) else Inl InvalidTokenError
      | _ \<Rightarrow> Inl InvalidTokenError)"

definition ref_http_get :: "pyval \<Rightarrow> error + (int \<times> string)" where
  "ref_http_get url =
     (case url of
        PStr u \<Rightarrow> if u = ''http://docs/new'' then Inr (200, ''NEW'') else Inr (404, [])
      | _ \<Rightarrow> Inl TypeError)"

definition ref_format :: "pyval \<Rightarrow> string" where
  "ref_format v =
     (case v of
        PStr s \<Rightarrow> s
      | PInt i \<Rightarrow> str_int i
      | PBool b \<Rightarrow> (if b then ''True'' else ''False'')
      | PNone \<Rightarrow> ''None''
      | _ \<Rightarrow> dumps_at 0 v)"

definition ref_exc_str :: "error \<Rightarrow> string" where
  "ref_exc_str e = (case e of HTTPException code detail \<Rightarrow> detail | KeyError k \<Rightarrow> k | _ \<Rightarrow> ''error'')"

definition pyref :: pylib where
  "pyref = \<lparr>py_int = ascii_int, py_float = ascii_float, py_lower = ascii_lower,
            py_upper = ascii_upper, json_loads = ref_loads, json_dumps = ref_dumps, jwt_encode = ref_jwt_encode,
            jwt_decode = ref_jwt_decode, http_get = ref_http_get, py_format = ref_format,
            exc_str = ref_exc_str\<rparr>"

section \<open>The statements of the specification\<close>

text \<open>
  The coercion rule as the specification words it: the boolean words; else an integer
  when the text parses as one; else a float when it parses as one; else the parsed
  structure when the text is a valid JSON array or object; else the text.
\<close>

definition spec_convert :: "('z pylib_scheme) \<Rightarrow> string \<Rightarrow> pyval" where
  "spec_convert L v =
     (if py_lower L v = ''true'' \<or> py_lower L v = ''false'' then PBool (py_lower L v = ''true'')
      else
        (case py_int L v of
           Some n \<Rightarrow> PInt n
         | None \<Rightarrow>
             (case py_float L v of
                Some f \<Rightarrow> PFloat f
              | None \<Rightarrow>
                  (case json_loads L v of
                     Some (PList xs) \<Rightarrow> PList xs
                   | Some (PDict d) \<Rightarrow> PDict d
                   | _ \<Rightarrow> PStr v))))"

text \<open>
  Some intermediate segment of a key is bound, in the tree, to a value that is not a
  mapping. The argument is the list of the intermediate segments, all but the last.
\<close>

fun blocked :: "(string \<times> pyval) list \<Rightarrow> string list \<Rightarrow> bool" where
  "blocked d [] = False"
| "blocked d (k # ks) =
     (case map_of d k of
        None \<Rightarrow> False
      | Some (PDict d') \<Rightarrow> blocked d' ks
      | Some _ \<Rightarrow> True)"

text \<open>Two paths of which one is the beginning of the other.\<close>

definition comparable :: "string list \<Rightarrow> string list \<Rightarrow> bool" where
  "comparable p q = (take (length p) q = p \<or> take (length q) p = q)"

text \<open>
  Python's \<^verbatim>\<open>==\<close> on two values that are distinct objects. Booleans, integers and floats
  compare by their numeric value, and \<^verbatim>\<open>nan\<close> is equal to nothing, itself included; two
  lists are equal when they have the same length and equal elements; two dictionaries
  are equal when they have the same keys and equal values under each key; values of
  different kinds are not equal.
\<close>

fun float_eq :: "pyfloat \<Rightarrow> pyfloat \<Rightarrow> bool" where
  "float_eq (FDec m e) (FDec m' e') =
     (m * 10 ^ nat (e - min e e') = m' * 10 ^ nat (e' - min e e'))"
| "float_eq (FInf b) (FInf b') = (b = b')"
| "float_eq _ _ = False"

fun py_eq :: "pyval \<Rightarrow> pyval \<Rightarrow> bool"
  and py_eq_list :: "pyval list \<Rightarrow> pyval list \<Rightarrow> bool"
  and py_eq_items :: "(string \<times> pyval) list \<Rightarrow> (string \<times> pyval) list \<Rightarrow> bool"
where
  "py_eq PNone b = (b = PNone)"
| "py_eq (PBool x) b =
     (case as_number b of Some g \<Rightarrow> float_eq (FDec (if x then 1 else 0) 0) g | None \<Rightarrow> False)"
| "py_eq (PInt i) b = (case as_number b of Some g \<Rightarrow> float_eq (FDec i 0) g | None \<Rightarrow> False)"
| "py_eq (PFloat f) b = (case as_number b of Some g \<Rightarrow> float_eq f g | None \<Rightarrow> False)"
| "py_eq (PStr s) b = (b = PStr s)"
| "py_eq (PList xs) b = (case b of PList ys \<Rightarrow> py_eq_list xs ys | _ \<Rightarrow> False)"
| "py_eq (PDict d) b =
     (case b of
        PDict d' \<Rightarrow> set (map fst d) = set (map fst d') \<and> py_eq_items d d'
      | _ \<Rightarrow> False)"
| "py_eq_list [] ys = (ys = [])"
| "py_eq_list (x # xs) ys = (case ys of [] \<Rightarrow> False | y # ys' \<Rightarrow> py_eq x y \<and> py_eq_list xs ys')"
| "py_eq_items [] d' = True"
| "py_eq_items (p # ps) d' =
     ((case map_of d' (fst p) of None \<Rightarrow> False | Some w \<Rightarrow> py_eq (snd p) w)
      \<and> py_eq_items ps d')"

text \<open>
  The persistence round trip: \<^verbatim>\<open>set(K, V)\<close>, \<^verbatim>\<open>save_config()\<close>, a new \<^verbatim>\<open>Config\<close> on the
  same file, \<^verbatim>\<open>get(K)\<close>. An exception of \<^verbatim>\<open>set\<close> ends the sequence.
\<close>

definition set_save_load_get ::
  "('z pylib_scheme) \<Rightarrow> (string \<Rightarrow> bool) \<Rightarrow> environ \<Rightarrow> disk \<Rightarrow> config \<Rightarrow> string \<Rightarrow> pyval
     \<Rightarrow> error + pyval" where
  "set_save_load_get L wr env fs c K V =
     (case Config_set c K V of
        Inl e \<Rightarrow> Inl e
      | Inr c1 \<Rightarrow>
          Inr (Config_get L env
                 (snd (Config_init L wr (save_config L wr fs c1) (config_file c1))) K PNone))"

text \<open>
  A sidecar is corrupt when its text does not parse, when it parses to a value that is
  not a mapping, or when a required field is missing. \<open>sidecar_error\<close> is the exception
  the listing raises on it: \<^verbatim>\<open>JSONDecodeError\<close>, \<^verbatim>\<open>TypeError\<close>, or \<^verbatim>\<open>KeyError\<close> of the first
  required field that is missing, in the order in which the listing reads them.
\<close>

definition required_fields :: "string list" where
  "required_fields = [''id'', ''original_name'', ''upload_time'', ''size'']"

definition sidecar_error :: "('z pylib_scheme) \<Rightarrow> string \<Rightarrow> error option" where
  "sidecar_error L content =
     (case json_loads L content of
        None \<Rightarrow> Some JSONDecodeError
      | Some metadata \<Rightarrow>
          (case metadata of
             PDict d \<Rightarrow> map_option KeyError (find (\<lambda>k. map_of d k = None) required_fields)
           | _ \<Rightarrow> Some TypeError))"

definition corrupt :: "('z pylib_scheme) \<Rightarrow> string \<Rightarrow> bool" where
  "corrupt L content = (sidecar_error L content \<noteq> None)"

text \<open>The sidecars of a directory, and the entry of the listing for a well-formed one.\<close>

definition sidecars :: "directory \<Rightarrow> directory" where
  "sidecars dir = filter (\<lambda>f. endswith ''.json'' (fst f)) dir"

definition summary_of :: "('z pylib_scheme) \<Rightarrow> string \<Rightarrow> pyval" where
  "summary_of L content =
     (case json_loads L content of
        None \<Rightarrow> PNone
      | Some metadata \<Rightarrow> (case file_summary metadata of Inr x \<Rightarrow> x | Inl e \<Rightarrow> PNone))"

text \<open>The session key of a handler's result: \<^verbatim>\<open>document.key\<close>; and whether it has a \<^verbatim>\<open>token\<close>.\<close>

definition session_key :: "error + pyval \<Rightarrow> pyval option" where
  "session_key r = (case r of Inl e \<Rightarrow> None | Inr cfg \<Rightarrow> walk cfg [''document'', ''key''])"

definition has_token :: "pyval \<Rightarrow> bool" where
  "has_token cfg = (case cfg of PDict d \<Rightarrow> map_of d ''token'' \<noteq> None | _ \<Rightarrow> False)"

definition is_str :: "pyval \<Rightarrow> bool" where
  "is_str v = (case v of PStr s \<Rightarrow> True | _ \<Rightarrow> False)"

definition str_of :: "pyval \<Rightarrow> string" where
  "str_of v = (case v of PStr s \<Rightarrow> s | _ \<Rightarrow> [])"

text \<open>Examples: every write succeeds, a configuration file, an upload directory.\<close>

definition writable :: "string \<Rightarrow> bool" where
  "writable p = True"

definition no_env :: environ where
  "no_env = Map.empty"

definition empty_disk :: disk where
  "empty_disk = Map.empty"

definition default_conf :: config where
  "default_conf = \<lparr>config_file = ''config.json'', tree = default_config\<rparr>"

definition small_conf :: config where
  "small_conf = \<lparr>config_file = ''config.json'',
                 tree = PDict [(''server'', PDict [(''host'', PStr ''10.0.51.143''),
                                                   (''port'', PInt 8000)])]\<rparr>"

text \<open>
  No write succeeds; and a disk on which the configuration file holds the tree of
  \<open>small_conf\<close>.
\<close>

definition read_only :: "string \<Rightarrow> bool" where
  "read_only p = False"

definition small_disk :: disk where
  "small_disk = [''config.json'' \<mapsto> ref_dumps False (tree small_conf)]"

definition example_metadata :: pyval where
  "example_metadata = PDict
     [(''id'', PStr ''f1''),
      (''original_name'', PStr ''report.xlsx''),
      (''stored_name'', PStr ''f1.xlsx''),
      (''upload_time'', PStr ''2024-05-01T10:00:00''),
      (''size'', PInt 4)]"

definition example_dir :: directory where
  "example_dir = [(''f1.xlsx'', ''DATA''), (''f1.json'', ref_dumps True example_metadata)]"

text \<open>
  A second upload, a month later; a sidecar that lacks all fields but the first; and a
  directory that holds both well-formed sidecars, then that one, then one that is not
  JSON.
\<close>

definition example_metadata2 :: pyval where
  "example_metadata2 = PDict
     [(''id'', PStr ''f2''),
      (''original_name'', PStr ''notes.txt''),
      (''stored_name'', PStr ''f2.txt''),
      (''upload_time'', PStr ''2024-06-01T08:30:00''),
      (''size'', PInt 5)]"

definition example_dir2 :: directory where
  "example_dir2 = example_dir @ [(''f2.txt'', ''NOTES''), (''f2.json'', ref_dumps True example_metadata2)]"

definition example_dir_bad :: directory where
  "example_dir_bad =
     example_dir2 @ [(''f3.json'', ref_dumps True (PDict [(''id'', PStr ''f3'')])),
                     (''f4.json'', ''not json'')]"

definition is_list :: "pyval \<Rightarrow> bool" where
  "is_list v = (case v of PList xs \<Rightarrow> True | _ \<Rightarrow> False)"

text \<open>Signing is on: the secret and \<^verbatim>\<open>onlyoffice.jwt_enabled\<close> are both true.\<close>

definition signing :: "('z pylib_scheme) \<Rightarrow> environ \<Rightarrow> config \<Rightarrow> bool" where
  "signing L env c =
     (truthy (onlyoffice_secret L env c)
      \<and> truthy (Config_get L env c ''onlyoffice.jwt_enabled'' (PBool True)))"

text \<open>
  The name a handler reads from the sidecar of an identifier: the sidecar exists, its
  text parses, and the parsed value holds a string under \<^verbatim>\<open>original_name\<close>.
\<close>

definition sidecar_name :: "('z pylib_scheme) \<Rightarrow> directory \<Rightarrow> string \<Rightarrow> string option" where
  "sidecar_name L dir file_id =
     (case map_of dir (file_id @ ''.json'') of
        None \<Rightarrow> None
      | Some content \<Rightarrow>
          (case json_loads L content of
             None \<Rightarrow> None
           | Some metadata \<Rightarrow>
               (case py_getitem metadata ''original_name'' of
                  Inr (PStr name) \<Rightarrow> Some name
                | _ \<Rightarrow> None)))"

text \<open>
  The signing step goes through for a payload: signing is off, or the secret is a
  string or a list and \<^verbatim>\<open>jwt.encode\<close> returns a token for the payload.
\<close>

definition signs ::
  "('z pylib_scheme) \<Rightarrow> environ \<Rightarrow> config \<Rightarrow> (string \<times> pyval) list \<Rightarrow> bool" where
  "signs L env c payload =
     (\<not> signing L env c
      \<or> ((is_str (onlyoffice_secret L env c) \<or> is_list (onlyoffice_secret L env c))
         \<and> (case jwt_encode L (PDict payload) (onlyoffice_secret L env c) of
               Inr token \<Rightarrow> True
             | Inl e \<Rightarrow> False)))"

section \<open>Evaluation of the examples\<close>

lemmas num_defs = ascii_int_def ascii_float_def strip_def is_space_def split_sign_def nat_of_digits_def
  digit_val_def float_number_def float_exponent_def split_at_def is_digit_def ascii_lower_def lower_char_def

lemmas json_defs = ref_loads_def skip_ws_def json_ws_def startswith_def json_scalar_def is_prefix_def
  json_number_def all_digits_def json_escapes_def hex4_def hex_val_def ref_dumps_def quote_def
  quote_char_def newline_indent_def str_int_def digit_char_def float_text_def hex_digit_def

lemma pyref_sel [simp]:
  "py_int pyref = ascii_int" "py_float pyref = ascii_float" "py_lower pyref = ascii_lower"
  "py_upper pyref = ascii_upper"
  "json_loads pyref = ref_loads" "json_dumps pyref = ref_dumps" "jwt_encode pyref = ref_jwt_encode"
  "jwt_decode pyref = ref_jwt_decode" "http_get pyref = ref_http_get" "py_format pyref = ref_format"
  "exc_str pyref = ref_exc_str"
  by (simp_all add: pyref_def)

section \<open>The configuration store\<close>

subsection \<open>Environment overrides\<close>

text \<open>
  C3. When the environment variable of a key \<open>K\<close> (the key in upper case, dots replaced
  by underscores) is set to \<open>s\<close>, \<^verbatim>\<open>Config.get(K, default)\<close> returns the coerced value of
  \<open>s\<close>, whatever the tree read from the file and whatever the default.
\<close>

theorem env_override_wins:
  assumes "env (env_key L K) = Some s"
  shows "Config_get L env c K dflt = convert_env_value L s
       \<and> Config_get L env c' K dflt' = Config_get L env c K dflt"
  using assms by (simp add: Config_get_def)

theorem env_override_wins_witness:
  "env_key pyref ''server.port'' = ''SERVER_PORT''
   \<and> walk (tree default_conf) (split_on CHR ''.'' ''server.port'') = Some (PInt 8000)
   \<and> Config_get pyref [''SERVER_PORT'' \<mapsto> ''9000''] default_conf ''server.port'' (PInt 1) = PInt 9000"
proof -
  have k: "env_key pyref ''server.port'' = ''SERVER_PORT''"
    by (simp add: env_key_def ascii_upper_def upper_char_def replace_char_def)
  have e: "[''SERVER_PORT'' \<mapsto> ''9000''] (env_key pyref ''server.port'') = Some ''9000''"
    by (simp add: k)
  have v: "convert_env_value pyref ''9000'' = PInt 9000"
    by (simp add: convert_env_value_def num_defs)
  have w: "walk (tree default_conf) (split_on CHR ''.'' ''server.port'') = Some (PInt 8000)"
    by (simp add: default_conf_def default_config_def default_items_def)
  from env_override_wins [where env = "[''SERVER_PORT'' \<mapsto> ''9000'']" and K = "''server.port''"
      and L = pyref and c = default_conf and dflt = "PInt 1", OF e] k v w
  show ?thesis by simp
qed

subsection \<open>The coercion rule\<close>

text \<open>
  C4, as the specification states it, fails: \<^verbatim>\<open>1e5\<close> parses as a float, and the rule of
  the specification gives the float, but the code tries \<^verbatim>\<open>float\<close> only on a text that
  holds a dot, so it returns the text.
\<close>

theorem convert_counterexample:
  "convert_env_value pyref ''1e5'' = PStr ''1e5'' \<and> spec_convert pyref ''1e5'' = PFloat (FDec 1 5)"
  by (simp add: convert_env_value_def spec_convert_def num_defs startswith_def)

text \<open>
  C4, amended. The boolean words, in any case, give a boolean. Otherwise a text with a
  dot that parses as a float gives the float, and a text without a dot that parses as an
  integer gives the integer. Otherwise, when that one numeric parse fails, a text that
  starts with \<^verbatim>\<open>[\<close> or \<^verbatim>\<open>{\<close> and is valid JSON gives the parsed value, and every other
  text is returned as it is.
\<close>

theorem convert_env_value_rule:
  "(py_lower L v = ''true'' \<or> py_lower L v = ''false''
      \<longrightarrow> convert_env_value L v = PBool (py_lower L v = ''true''))
   \<and> (py_lower L v \<noteq> ''true'' \<and> py_lower L v \<noteq> ''false'' \<longrightarrow>
        (CHR ''.'' \<in> set v \<and> py_float L v = Some f \<longrightarrow> convert_env_value L v = PFloat f)
      \<and> (CHR ''.'' \<notin> set v \<and> py_int L v = Some n \<longrightarrow> convert_env_value L v = PInt n)
      \<and> ((if CHR ''.'' \<in> set v then py_float L v = None else py_int L v = None) \<longrightarrow>
            ((startswith CHR ''['' v \<or> startswith CHR ''{'' v) \<and> json_loads L v = Some j
               \<longrightarrow> convert_env_value L v = j)
          \<and> (\<not> (startswith CHR ''['' v \<or> startswith CHR ''{'' v) \<or> json_loads L v = None
               \<longrightarrow> convert_env_value L v = PStr v)))"
  by (auto simp add: convert_env_value_def)

theorem convert_env_value_rule_witness:
  "convert_env_value pyref ''TRUE'' = PBool True
   \<and> convert_env_value pyref ''1.5'' = PFloat (FDec 15 (- 1))
   \<and> convert_env_value pyref ''42'' = PInt 42
   \<and> convert_env_value pyref ''[1, 2]'' = PList [PInt 1, PInt 2]
   \<and> convert_env_value pyref ''1e5'' = PStr ''1e5''"
proof -
  have 1: "convert_env_value pyref ''TRUE'' = PBool True"
    using convert_env_value_rule [of pyref "''TRUE''"] by (simp add: ascii_lower_def lower_char_def)
  have 2: "convert_env_value pyref ''1.5'' = PFloat (FDec 15 (- 1))"
    using convert_env_value_rule [of pyref "''1.5''" "FDec 15 (- 1)"] by (simp add: num_defs)
  have 3: "convert_env_value pyref ''42'' = PInt 42"
    using convert_env_value_rule [of pyref "''42''" _ 42] by (simp add: num_defs)
  have 4: "convert_env_value pyref ''[1, 2]'' = PList [PInt 1, PInt 2]"
    using convert_env_value_rule [of pyref "''[1, 2]''" _ _ "PList [PInt 1, PInt 2]"]
    by (simp add: num_defs json_defs)
  have 5: "convert_env_value pyref ''1e5'' = PStr ''1e5''"
    using convert_env_value_rule [of pyref "''1e5''"] by (simp add: num_defs startswith_def)
  from 1 2 3 4 5 show ?thesis by simp
qed

subsection \<open>Assignment by dotted key\<close>

lemma split_on_nonempty: "split_on sep s \<noteq> []"
  by (induction s) (auto split: list.splits)

lemma blocked_empty: "blocked [] ks = False"
  by (cases ks) auto

lemma walk_empty_dict: "walk (PDict []) (k # ks) = None"
  by simp

lemma set_keys_nondict:
  "(\<And>d. sub \<noteq> PDict d) \<Longrightarrow> set_keys sub (k # ks) v = Inl TypeError"
  by (cases sub) auto

lemma comparable_Cons: "comparable (k # p) (k # q) = comparable p q"
  by (simp add: comparable_def)

lemma comparable_Nil: "comparable [] q"
  by (simp add: comparable_def)

lemma comparable_diff: "j \<noteq> k \<Longrightarrow> \<not> comparable (j # p) (k # q)"
  by (simp add: comparable_def)

lemma walk_update_other:
  "j \<noteq> k \<Longrightarrow> walk (PDict (AList.update k x d)) (j # p) = walk (PDict d) (j # p)"
  by (simp add: update_conv')

lemma walk_update_same:
  "walk (PDict (AList.update k x d)) (k # p) = walk x p"
  by (simp add: update_conv')

lemma set_keys_spec:
  "ks \<noteq> [] \<Longrightarrow>
   (blocked d (butlast ks) \<longrightarrow> set_keys (PDict d) ks v = Inl TypeError) \<and>
   (\<not> blocked d (butlast ks) \<longrightarrow>
      (\<exists>t. set_keys (PDict d) ks v = Inr (PDict t) \<and> walk (PDict t) ks = Some v
           \<and> (\<forall>p. \<not> comparable p ks \<longrightarrow> walk (PDict t) p = walk (PDict d) p)))"
proof (induction ks arbitrary: d)
  case Nil
  then show ?case by simp
next
  case (Cons k ks)
  show ?case
  proof (cases ks)
    case Nil
    have "\<And>p. \<not> comparable p [k] \<Longrightarrow> walk (PDict (AList.update k v d)) p = walk (PDict d) p"
    proof -
      fix p assume n: "\<not> comparable p [k]"
      show "walk (PDict (AList.update k v d)) p = walk (PDict d) p"
      proof (cases p)
        case Nil
        with n show ?thesis by (simp add: comparable_def)
      next
        case (Cons j q)
        with n have "j \<noteq> k" by (auto simp add: comparable_def)
        with Cons show ?thesis by (simp add: update_conv')
      qed
    qed
    with Nil show ?thesis by (simp add: update_conv')
  next
    case (Cons k' ks')
    have ih: "\<And>e. (blocked e (butlast ks) \<longrightarrow> set_keys (PDict e) ks v = Inl TypeError) \<and>
       (\<not> blocked e (butlast ks) \<longrightarrow>
          (\<exists>t. set_keys (PDict e) ks v = Inr (PDict t) \<and> walk (PDict t) ks = Some v
             \<and> (\<forall>p. \<not> comparable p ks \<longrightarrow> walk (PDict t) p = walk (PDict e) p)))"
      using Cons.IH Cons by simp
    have bl: "butlast (k # ks) = k # butlast ks" using Cons by simp
    show ?thesis
    proof (cases "map_of d k")
      case None
      have nb: "\<not> blocked d (butlast (k # ks))" using None bl by simp
      from ih [of "[]"] obtain t where
        t: "set_keys (PDict []) ks v = Inr (PDict t)" "walk (PDict t) ks = Some v"
           "\<forall>p. \<not> comparable p ks \<longrightarrow> walk (PDict t) p = walk (PDict []) p"
        by (auto simp add: blocked_empty)
      let ?d' = "AList.update k (PDict []) d"
      let ?r = "AList.update k (PDict t) ?d'"
      have s: "set_keys (PDict d) (k # ks) v = Inr (PDict ?r)"
        using None t(1) Cons by (simp add: update_conv')
      have w: "walk (PDict ?r) (k # ks) = Some v"
        using t(2) by (simp add: update_conv')
      have f: "\<And>p. \<not> comparable p (k # ks) \<Longrightarrow> walk (PDict ?r) p = walk (PDict d) p"
      proof -
        fix p assume n: "\<not> comparable p (k # ks)"
        show "walk (PDict ?r) p = walk (PDict d) p"
        proof (cases p)
          case Nil
          with n show ?thesis by (simp add: comparable_def)
        next
          case pc: (Cons j q)
          show ?thesis
          proof (cases "j = k")
            case True
            with n pc have nq: "\<not> comparable q ks" by (simp add: comparable_Cons)
            then have "q \<noteq> []" by (auto simp add: comparable_def)
            then obtain a b where q: "q = a # b" by (cases q) auto
            from nq t(3) have "walk (PDict t) q = walk (PDict []) q" by blast
            with q have "walk (PDict t) q = None" by simp
            with True pc None show ?thesis by (simp add: update_conv')
          next
            case False
            with pc show ?thesis by (simp add: update_conv')
          qed
        qed
      qed
      from nb s w f show ?thesis by blast
    next
      case (Some sub)
      show ?thesis
      proof (cases "\<exists>e. sub = PDict e")
        case True
        then obtain e where e: "sub = PDict e" by blast
        have beq: "blocked d (butlast (k # ks)) = blocked e (butlast ks)"
          using Some e bl by simp
        show ?thesis
        proof (cases "blocked e (butlast ks)")
          case True
          with ih [of e] have "set_keys (PDict e) ks v = Inl TypeError" by simp
          then have "set_keys (PDict d) (k # ks) v = Inl TypeError"
            using Some e Cons by simp
          with True beq show ?thesis by simp
        next
          case False
          with ih [of e] obtain t where
            t: "set_keys (PDict e) ks v = Inr (PDict t)" "walk (PDict t) ks = Some v"
               "\<forall>p. \<not> comparable p ks \<longrightarrow> walk (PDict t) p = walk (PDict e) p"
            by auto
          let ?r = "AList.update k (PDict t) d"
          have s: "set_keys (PDict d) (k # ks) v = Inr (PDict ?r)"
            using Some e t(1) Cons by simp
          have w: "walk (PDict ?r) (k # ks) = Some v"
            using t(2) by (simp add: update_conv')
          have f: "\<And>p. \<not> comparable p (k # ks) \<Longrightarrow> walk (PDict ?r) p = walk (PDict d) p"
          proof -
            fix p assume n: "\<not> comparable p (k # ks)"
            show "walk (PDict ?r) p = walk (PDict d) p"
            proof (cases p)
              case Nil
              with n show ?thesis by (simp add: comparable_def)
            next
              case pc: (Cons j q)
              show ?thesis
              proof (cases "j = k")
                case True
                with n pc have nq: "\<not> comparable q ks" by (simp add: comparable_Cons)
                with t(3) have "walk (PDict t) q = walk (PDict e) q" by blast
                with True pc Some e show ?thesis by (simp add: update_conv')
              next
                case False
                with pc show ?thesis by (simp add: update_conv')
              qed
            qed
          qed
          from False beq s w f show ?thesis by blast
        qed
      next
        case False
        then have nd: "\<And>e. sub \<noteq> PDict e" by blast
        have b: "blocked d (butlast (k # ks))"
          using Some nd bl by (cases sub) auto
        have "set_keys sub ks v = Inl TypeError"
          using set_keys_nondict [OF nd] Cons by simp
        then have "set_keys (PDict d) (k # ks) v = Inl TypeError"
          using Some Cons by simp
        with b show ?thesis by simp
      qed
    qed
  qed
qed
lemma set_keys_Inr_dict:
  assumes "set_keys t ks v = Inr r" 
  shows "\<exists>d. t = PDict d"
  using assms by (cases ks; cases t) auto



subsection \<open>Persistence\<close>

lemma py_eq_items_mem:
  "py_eq_items d' d \<Longrightarrow> (k, v) \<in> set d' \<Longrightarrow> \<exists>w. map_of d k = Some w \<and> py_eq v w"
  by (induction d') (auto split: option.splits)

lemma py_eq_dict:
  assumes "py_eq t' (PDict d)"
  shows "\<exists>d'. t' = PDict d' \<and> set (map fst d') = set (map fst d) \<and> py_eq_items d' d"
  using assms by (cases t') (auto split: pyval.splits)

lemma walk_py_eq:
  "py_eq t' t \<Longrightarrow> walk t ks = Some V \<Longrightarrow> \<exists>v. walk t' ks = Some v \<and> py_eq v V"
proof (induction ks arbitrary: t t')
  case Nil
  then show ?case by simp
next
  case (Cons k ks)
  from Cons.prems(2) obtain d w where t: "t = PDict d" and w: "map_of d k = Some w"
    and wk: "walk w ks = Some V"
    by (cases t) (auto split: option.splits)
  from py_eq_dict Cons.prems(1) t obtain d' where d': "t' = PDict d'"
    "set (map fst d') = set (map fst d)" "py_eq_items d' d" by blast
  from w have "k \<in> set (map fst d)" by (metis map_of_eq_None_iff option.distinct(1) set_map)
  with d'(2) have "k \<in> fst ` set d'" by simp
  then obtain v where v: "map_of d' k = Some v"
    by (metis map_of_eq_None_iff not_None_eq)
  then have "(k, v) \<in> set d'" by (rule map_of_SomeD)
  from py_eq_items_mem [OF d'(3) this] w have "py_eq v w" by simp
  from Cons.IH [OF this wk] obtain u where "walk v ks = Some u" "py_eq u V" by blast
  with d'(1) v show ?case by simp
qed


lemma small_tree_loads:
  "ref_loads (ref_dumps False (tree small_conf)) = Some (tree small_conf)"
  by (simp add: small_conf_def json_defs num_defs str_nat.simps)

lemma nan_tree_loads:
  "ref_loads (ref_dumps False
             (PDict [(''server'', PDict [(''host'', PStr ''10.0.51.143''),
                                         (''port'', PFloat FNan)])]))
           = Some (PDict [(''server'', PDict [(''host'', PStr ''10.0.51.143''),
                                         (''port'', PFloat FNan)])])"
  by (simp add: json_defs num_defs str_nat.simps)

lemma port_tree_loads:
  "ref_loads (ref_dumps False
             (PDict [(''server'', PDict [(''host'', PStr ''10.0.51.143''),
                                         (''port'', PInt 9000)])]))
           = Some (PDict [(''server'', PDict [(''host'', PStr ''10.0.51.143''),
                                         (''port'', PInt 9000)])])"
  by (simp add: json_defs num_defs str_nat.simps)

lemma tones_tree_loads:
  "ref_loads (ref_dumps False
       (PDict [(''server'', PDict [(''host'', PStr ''10.0.51.143''), (''port'', PInt 8000)]),
               (''ui'', PDict [(''theme'', PDict [(''tones'',
                  PList [PStr ''dark'', PFloat (FDec 15 (- 1)), PBool True, PNone])])])]))
     = Some (PDict [(''server'', PDict [(''host'', PStr ''10.0.51.143''), (''port'', PInt 8000)]),
               (''ui'', PDict [(''theme'', PDict [(''tones'',
                  PList [PStr ''dark'', PFloat (FDec 15 (- 1)), PBool True, PNone])])])])"
  by (simp add: json_defs num_defs str_nat.simps)

lemma small_set:
  "Config_set small_conf ''server.port'' V
     = Inr \<lparr>config_file = ''config.json'',
            tree = PDict [(''server'', PDict [(''host'', PStr ''10.0.51.143''), (''port'', V)])]\<rparr>"
  "Config_set small_conf ''ui.theme.tones'' V
     = Inr \<lparr>config_file = ''config.json'',
            tree = PDict [(''server'', PDict [(''host'', PStr ''10.0.51.143''),
                                              (''port'', PInt 8000)]),
                          (''ui'', PDict [(''theme'', PDict [(''tones'', V)])])]\<rparr>"
  by (simp_all add: Config_set_def small_conf_def)

lemma small_env_keys:
  "env_key pyref ''server.port'' = ''SERVER_PORT''"
  "env_key pyref ''ui.theme.tones'' = ''UI_THEME_TONES''"
  by (simp_all add: env_key_def ascii_upper_def upper_char_def replace_char_def)

text \<open>
  C6, as the specification states it, fails, in three ways. On the default tree
  \<^verbatim>\<open>server.host\<close> is a string, so \<^verbatim>\<open>set("server.host.x", 1)\<close> raises and the sequence
  returns no value. When the configuration file cannot be written, \<^verbatim>\<open>save_config\<close>
  prints the failure and goes on: after \<^verbatim>\<open>set("server.port", 9000)\<close> a new \<^verbatim>\<open>Config\<close>
  reads the old file and \<^verbatim>\<open>get\<close> returns 8000. And after \<^verbatim>\<open>set("server.port", nan)\<close>
  the value read back is \<^verbatim>\<open>nan\<close>, which is not equal to \<^verbatim>\<open>nan\<close>.
\<close>

theorem roundtrip_counterexample:
  "set_save_load_get pyref writable no_env
     (fst (Config_init pyref writable empty_disk ''config.json''))
     (snd (Config_init pyref writable empty_disk ''config.json''))
     ''server.host.x'' (PInt 1) = Inl TypeError
   \<and> set_save_load_get pyref read_only no_env small_disk small_conf ''server.port'' (PInt 9000)
       = Inr (PInt 8000)
   \<and> \<not> py_eq (PInt 8000) (PInt 9000)
   \<and> set_save_load_get pyref writable no_env small_disk small_conf ''server.port'' (PFloat FNan)
       = Inr (PFloat FNan)
   \<and> \<not> py_eq (PFloat FNan) (PFloat FNan)"
proof -
  have a: "set_save_load_get pyref writable no_env
     (fst (Config_init pyref writable empty_disk ''config.json''))
     (snd (Config_init pyref writable empty_disk ''config.json''))
     ''server.host.x'' (PInt 1) = Inl TypeError"
    by (simp add: set_save_load_get_def Config_init_def load_config_def empty_disk_def
        Config_set_def default_config_def default_items_def)
  have b1: "Config_init pyref read_only small_disk ''config.json''
            = (small_disk, \<lparr>config_file = ''config.json'', tree = tree small_conf\<rparr>)"
    using small_tree_loads by (simp add: Config_init_def load_config_def small_disk_def)
  have b2: "walk (tree small_conf) [''server'', ''port''] = Some (PInt 8000)"
    by (simp add: small_conf_def)
  have b: "set_save_load_get pyref read_only no_env small_disk small_conf ''server.port'' (PInt 9000)
       = Inr (PInt 8000)"
    by (simp add: set_save_load_get_def small_set save_config_def read_only_def b1
        Config_get_def no_env_def b2 del: walk.simps)
  have c1: "Config_init pyref writable
              (small_disk(''config.json'' \<mapsto> ref_dumps False
                 (PDict [(''server'', PDict [(''host'', PStr ''10.0.51.143''),
                                             (''port'', PFloat FNan)])])))
              ''config.json''
            = (small_disk(''config.json'' \<mapsto> ref_dumps False
                 (PDict [(''server'', PDict [(''host'', PStr ''10.0.51.143''),
                                             (''port'', PFloat FNan)])])),
               \<lparr>config_file = ''config.json'',
                tree = PDict [(''server'', PDict [(''host'', PStr ''10.0.51.143''),
                                                  (''port'', PFloat FNan)])]\<rparr>)"
    using nan_tree_loads by (simp add: Config_init_def load_config_def)
  have c: "set_save_load_get pyref writable no_env small_disk small_conf ''server.port'' (PFloat FNan)
       = Inr (PFloat FNan)"
    by (simp add: set_save_load_get_def small_set save_config_def writable_def c1
        Config_get_def no_env_def)
  show ?thesis by (simp add: a b c)
qed

text \<open>
  C6, amended. For a key \<open>K\<close> that no environment variable shadows and a value \<open>V\<close>, when
  \<^verbatim>\<open>set(K, V)\<close> does not raise, the configuration file can be written, and the tree that
  \<^verbatim>\<open>json\<close> reads back from the text it wrote for the tree is equal (\<^verbatim>\<open>==\<close>) to the tree,
  \<^verbatim>\<open>save_config()\<close> and a new \<^verbatim>\<open>Config\<close> on the same file give \<^verbatim>\<open>get(K) == V\<close>.
\<close>

theorem set_save_load_get_roundtrip:
  assumes "env (env_key L K) = None"
    and "Config_set c K V = Inr c1"
    and "wr (config_file c)"
    and "json_loads L (json_dumps L False (tree c1)) = Some t'"
    and "py_eq t' (tree c1)"
  shows "\<exists>v. set_save_load_get L wr env fs c K V = Inr v \<and> py_eq v V"
proof -
  let ?ks = "split_on CHR ''.'' K"
  from assms(2) obtain t where t: "set_keys (tree c) ?ks V = Inr t" and c1: "c1 = c\<lparr>tree := t\<rparr>"
    by (auto simp add: Config_set_def split: sum.splits)
  from set_keys_Inr_dict [OF t] obtain d where d: "tree c = PDict d" by blast
  have ne: "?ks \<noteq> []" by (rule split_on_nonempty)
  from set_keys_spec [OF ne, of d V] t d have w: "walk t ?ks = Some V"
    by (cases "blocked d (butlast ?ks)") auto
  from assms(5) c1 have "py_eq t' t" by simp
  from walk_py_eq [OF this w] obtain v where v: "walk t' ?ks = Some v" "py_eq v V" by blast
  have "Config_init L wr (save_config L wr fs c1) (config_file c1) =
        (save_config L wr fs c1, \<lparr>config_file = config_file c, tree = t'\<rparr>)"
    using assms(3,4) c1 by (simp add: Config_init_def load_config_def save_config_def)
  then have "set_save_load_get L wr env fs c K V = Inr v"
    using assms(1,2) v(1) by (simp add: set_save_load_get_def Config_get_def)
  with v(2) show ?thesis by blast
qed

theorem set_save_load_get_roundtrip_witness:
  "(\<exists>v. set_save_load_get pyref writable no_env small_disk small_conf ''server.port'' (PInt 9000)
           = Inr v \<and> py_eq v (PInt 9000))
   \<and> (\<exists>v. set_save_load_get pyref writable no_env empty_disk small_conf ''ui.theme.tones''
             (PList [PStr ''dark'', PFloat (FDec 15 (- 1)), PBool True, PNone]) = Inr v
          \<and> py_eq v (PList [PStr ''dark'', PFloat (FDec 15 (- 1)), PBool True, PNone]))"
proof -
  let ?V = "PList [PStr ''dark'', PFloat (FDec 15 (- 1)), PBool True, PNone]"
  let ?t1 = "PDict [(''server'', PDict [(''host'', PStr ''10.0.51.143''), (''port'', PInt 9000)])]"
  let ?t2 = "PDict [(''server'', PDict [(''host'', PStr ''10.0.51.143''), (''port'', PInt 8000)]),
                    (''ui'', PDict [(''theme'', PDict [(''tones'', ?V)])])]"
  have e: "no_env (env_key pyref ''server.port'') = None"
          "no_env (env_key pyref ''ui.theme.tones'') = None"
    by (simp_all add: no_env_def)
  have w: "writable (config_file small_conf)" by (simp add: writable_def)
  have r1: "json_loads pyref
              (json_dumps pyref False (tree \<lparr>config_file = ''config.json'', tree = ?t1\<rparr>))
            = Some ?t1"
    using port_tree_loads by simp
  have r2: "json_loads pyref
              (json_dumps pyref False (tree \<lparr>config_file = ''config.json'', tree = ?t2\<rparr>))
            = Some ?t2"
    using tones_tree_loads by simp
  have q1: "py_eq ?t1 (tree \<lparr>config_file = ''config.json'', tree = ?t1\<rparr>)" by simp
  have q2: "py_eq ?t2 (tree \<lparr>config_file = ''config.json'', tree = ?t2\<rparr>)" by simp
  from set_save_load_get_roundtrip [where env = no_env and wr = writable and L = pyref
      and fs = small_disk, OF e(1) small_set(1) w r1 q1]
  have 1: "\<exists>v. set_save_load_get pyref writable no_env small_disk small_conf ''server.port''
             (PInt 9000) = Inr v \<and> py_eq v (PInt 9000)" .
  from set_save_load_get_roundtrip [where env = no_env and wr = writable and L = pyref
      and fs = empty_disk, OF e(2) small_set(2) w r2 q2]
  have 2: "\<exists>v. set_save_load_get pyref writable no_env empty_disk small_conf ''ui.theme.tones''
             ?V = Inr v \<and> py_eq v ?V" .
  from 1 2 show ?thesis by blast
qed

section \<open>The file metadata store\<close>

subsection \<open>Evaluation of the example directory\<close>

lemma example_sidecar_loads:
  "ref_loads (ref_dumps True example_metadata) = Some example_metadata"
  "ref_loads (ref_dumps True example_metadata2) = Some example_metadata2"
  "ref_loads (ref_dumps True (PDict [(''id'', PStr ''f3'')])) = Some (PDict [(''id'', PStr ''f3'')])"
  by (simp_all add: example_metadata_def example_metadata2_def json_defs num_defs)

lemmas example_sidecar_loads_unfolded =
  example_sidecar_loads [unfolded example_metadata_def example_metadata2_def]

lemma not_json: "ref_loads ''not json'' = None"
  by (simp add: json_defs num_defs)

lemma default_jwt_enabled:
  "Config_get pyref no_env default_conf ''onlyoffice.jwt_enabled'' (PBool True) = PBool True"
  by (simp add: Config_get_def no_env_def default_conf_def default_config_def default_items_def)

lemma default_secret:
  "onlyoffice_secret pyref no_env default_conf = PStr ''wIUxuAv0mXxom895nEGPKG3Bw3hm''"
  by (simp add: onlyoffice_secret_def Config_get_def no_env_def default_conf_def default_config_def
      default_items_def)

lemma example_load_metadata:
  "load_metadata pyref example_dir ''f1'' = Inr example_metadata"
  by (simp add: load_metadata_def example_dir_def example_sidecar_loads)

lemma example_original_extension:
  "original_extension pyref example_metadata = Inr (''report.xlsx'', ''.xlsx'')"
  by (simp add: original_extension_def example_metadata_def py_getitem_def path_suffix_def
      path_name_def rfind_dot_def ascii_lower_def lower_char_def)

lemma example_sidecars:
  "sidecars example_dir2
     = [(''f1.json'', ref_dumps True example_metadata), (''f2.json'', ref_dumps True example_metadata2)]"
  "sidecars example_dir_bad
     = [(''f1.json'', ref_dumps True example_metadata), (''f2.json'', ref_dumps True example_metadata2)]
       @ (''f3.json'', ref_dumps True (PDict [(''id'', PStr ''f3'')])) # [(''f4.json'', ''not json'')]"
  by (simp_all add: sidecars_def example_dir_bad_def example_dir2_def example_dir_def endswith_def)

lemma example_summary:
  "file_summary example_metadata
     = Inr (PDict [(''id'', PStr ''f1''), (''name'', PStr ''report.xlsx''),
                   (''upload_time'', PStr ''2024-05-01T10:00:00''), (''size'', PInt 4)])"
  "file_summary example_metadata2
     = Inr (PDict [(''id'', PStr ''f2''), (''name'', PStr ''notes.txt''),
                   (''upload_time'', PStr ''2024-06-01T08:30:00''), (''size'', PInt 5)])"
  by (simp_all add: file_summary_def example_metadata_def example_metadata2_def py_getitem_def)

lemma example_errors:
  "sidecar_error pyref (ref_dumps True example_metadata) = None"
  "sidecar_error pyref (ref_dumps True example_metadata2) = None"
  "sidecar_error pyref (ref_dumps True (PDict [(''id'', PStr ''f3'')])) = Some (KeyError ''original_name'')"
  "sidecar_error pyref ''not json'' = Some JSONDecodeError"
  by (simp_all add: sidecar_error_def example_sidecar_loads_unfolded not_json required_fields_def
      example_metadata_def example_metadata2_def)

subsection \<open>Listing\<close>

lemma file_summary_dict:
  "file_summary (PDict d) =
     (case find (\<lambda>k. map_of d k = None) required_fields of
        Some k \<Rightarrow> Inl (KeyError k)
      | None \<Rightarrow> Inr (PDict [(''id'', the (map_of d ''id'')), (''name'', the (map_of d ''original_name'')),
                             (''upload_time'', the (map_of d ''upload_time'')),
                             (''size'', the (map_of d ''size''))]))"
  by (auto simp add: file_summary_def py_getitem_def required_fields_def split: option.splits)

lemma file_summary_nondict: "(\<And>d. metadata \<noteq> PDict d) \<Longrightarrow> file_summary metadata = Inl TypeError"
  by (cases metadata) (auto simp add: file_summary_def py_getitem_def)

lemma sidecar_error_Some:
  assumes "sidecar_error L content = Some e"
  shows "(json_loads L content = None \<and> e = JSONDecodeError)
       \<or> (\<exists>metadata. json_loads L content = Some metadata \<and> file_summary metadata = Inl e)"
proof (cases "json_loads L content")
  case None
  with assms show ?thesis by (simp add: sidecar_error_def)
next
  case (Some metadata)
  show ?thesis
  proof (cases "\<exists>d. metadata = PDict d")
    case True
    then obtain d where "metadata = PDict d" by blast
    with assms Some show ?thesis
      by (auto simp add: sidecar_error_def file_summary_dict split: option.splits)
  next
    case False
    then have n: "\<And>d. metadata \<noteq> PDict d" by blast
    from n assms Some have "e = TypeError" by (cases metadata) (auto simp add: sidecar_error_def)
    with Some file_summary_nondict [OF n] show ?thesis by simp
  qed
qed

lemma sidecar_error_None:
  assumes "sidecar_error L content = None"
  shows "\<exists>metadata x. json_loads L content = Some metadata \<and> file_summary metadata = Inr x"
proof (cases "json_loads L content")
  case None
  with assms show ?thesis by (simp add: sidecar_error_def)
next
  case (Some metadata)
  with assms obtain d where "metadata = PDict d"
    by (cases metadata) (auto simp add: sidecar_error_def)
  with assms Some show ?thesis
    by (auto simp add: sidecar_error_def file_summary_dict split: option.splits)
qed

lemma collect_files_sidecars: "collect_files L dir = collect_files L (sidecars dir)"
  by (induction dir) (auto simp add: sidecars_def split: option.splits sum.splits)

lemma collect_files_first_error:
  assumes "\<forall>g \<in> set (good @ f # rest). endswith ''.json'' (fst g)"
    and "\<forall>g \<in> set good. \<not> corrupt L (snd g)"
    and "sidecar_error L (snd f) = Some e"
  shows "collect_files L (good @ f # rest) = Inl e"
  using assms
proof (induction good)
  case Nil
  from sidecar_error_Some [OF Nil(3)] Nil(1) show ?case by auto
next
  case (Cons g good)
  from Cons.prems have "sidecar_error L (snd g) = None" by (simp add: corrupt_def)
  from sidecar_error_None [OF this] obtain metadata x where
    "json_loads L (snd g) = Some metadata" "file_summary metadata = Inr x" by blast
  moreover from Cons have "collect_files L (good @ f # rest) = Inl e" by simp
  ultimately show ?case using Cons.prems(1) by simp
qed

lemma collect_files_ok:
  "\<forall>f \<in> set (sidecars dir). \<not> corrupt L (snd f) \<Longrightarrow>
   collect_files L dir = Inr (map (\<lambda>f. summary_of L (snd f)) (sidecars dir))"
proof (induction dir)
  case Nil
  then show ?case by (simp add: sidecars_def)
next
  case (Cons f fs)
  show ?case
  proof (cases "endswith ''.json'' (fst f)")
    case False
    with Cons show ?thesis by (simp add: sidecars_def)
  next
    case True
    with Cons.prems have nc: "sidecar_error L (snd f) = None" by (simp add: sidecars_def corrupt_def)
    from Cons.prems True have "\<forall>g \<in> set (sidecars fs). \<not> corrupt L (snd g)"
      by (simp add: sidecars_def)
    with Cons.IH have ih: "collect_files L fs = Inr (map (\<lambda>f. summary_of L (snd f)) (sidecars fs))"
      by blast
    from sidecar_error_None [OF nc] obtain metadata x where "json_loads L (snd f) = Some metadata"
      "file_summary metadata = Inr x" by blast
    with True ih show ?thesis by (simp add: sidecars_def summary_of_def)
  qed
qed

lemma py_lt_str: "is_str a \<Longrightarrow> is_str b \<Longrightarrow> py_lt a b = Some (str_of a < str_of b)"
  by (cases a; cases b) (simp_all add: is_str_def str_of_def py_lt_def)

lemma insort_rev_str:
  assumes "is_str (fst x)" and "\<forall>y \<in> set ys. is_str (fst y)"
  shows "\<exists>zs. insort_rev x ys = Inr zs \<and> mset zs = mset (x # ys)
            \<and> (sorted_wrt (\<lambda>a b. str_of (fst b) \<le> str_of (fst a)) ys
                 \<longrightarrow> sorted_wrt (\<lambda>a b. str_of (fst b) \<le> str_of (fst a)) zs)"
  using assms
proof (induction ys)
  case Nil
  then show ?case by simp
next
  case (Cons y ys)
  then have lt: "py_lt (fst x) (fst y) = Some (str_of (fst x) < str_of (fst y))"
    by (simp add: py_lt_str)
  show ?case
  proof (cases "str_of (fst x) < str_of (fst y)")
    case True
    from Cons obtain zs where zs: "insort_rev x ys = Inr zs" "mset zs = mset (x # ys)"
      "sorted_wrt (\<lambda>a b. str_of (fst b) \<le> str_of (fst a)) ys
         \<longrightarrow> sorted_wrt (\<lambda>a b. str_of (fst b) \<le> str_of (fst a)) zs"
      by auto
    have r: "insort_rev x (y # ys) = Inr (y # zs)" using lt True zs(1) by simp
    have m: "mset (y # zs) = mset (x # y # ys)" using zs(2) by simp
    have s: "sorted_wrt (\<lambda>a b. str_of (fst b) \<le> str_of (fst a)) (y # ys)
         \<longrightarrow> sorted_wrt (\<lambda>a b. str_of (fst b) \<le> str_of (fst a)) (y # zs)"
    proof
      assume a: "sorted_wrt (\<lambda>a b. str_of (fst b) \<le> str_of (fst a)) (y # ys)"
      have "set zs = insert x (set ys)" using zs(2) by (metis mset_eq_setD list.simps(15))
      with a zs(3) True show "sorted_wrt (\<lambda>a b. str_of (fst b) \<le> str_of (fst a)) (y # zs)"
        by auto
    qed
    from r m s show ?thesis by blast
  next
    case False
    have r: "insort_rev x (y # ys) = Inr (x # y # ys)" using lt False by simp
    have s: "sorted_wrt (\<lambda>a b. str_of (fst b) \<le> str_of (fst a)) (y # ys)
         \<longrightarrow> sorted_wrt (\<lambda>a b. str_of (fst b) \<le> str_of (fst a)) (x # y # ys)"
      using False by auto
    from r s show ?thesis by simp
  qed
qed

lemma sorted_rev_str:
  assumes "\<forall>y \<in> set xs. is_str (fst y)"
  shows "\<exists>zs. sorted_rev xs = Inr zs \<and> mset zs = mset xs
            \<and> sorted_wrt (\<lambda>a b. str_of (fst b) \<le> str_of (fst a)) zs"
  using assms
proof (induction xs)
  case Nil
  then show ?case by simp
next
  case (Cons x xs)
  then obtain ys where ys: "sorted_rev xs = Inr ys" "mset ys = mset xs"
    "sorted_wrt (\<lambda>a b. str_of (fst b) \<le> str_of (fst a)) ys" by auto
  from ys(2) have "set ys = set xs" by (rule mset_eq_setD)
  with Cons.prems have "is_str (fst x)" "\<forall>y \<in> set ys. is_str (fst y)" by auto
  from insort_rev_str [OF this] ys(3) obtain zs where
    "insort_rev x ys = Inr zs" "mset zs = mset (x # ys)"
    "sorted_wrt (\<lambda>a b. str_of (fst b) \<le> str_of (fst a)) zs" by blast
  with ys(1,2) show ?case by simp
qed


lemma mset_two:
  assumes "mset r = {#a, b#}"
  shows "r = [a, b] \<or> r = [b, a]"
proof -
  from assms have "length r = 2" by (metis size_mset size_add_mset size_empty numeral_2_eq_2)
  then obtain x y where r: "r = [x, y]"
    by (metis (no_types) Suc_length_conv length_0_conv numeral_2_eq_2)
  with assms have "{#x, y#} = {#a, b#}" by simp
  then have "(x = a \<and> y = b) \<or> (x = b \<and> y = a)"
    by (auto simp add: add_eq_conv_ex)
  with r show ?thesis by auto
qed

text \<open>
  C1, as the specification states it, fails: with two well-formed sidecars, one that
  lacks fields and one that is not JSON in the directory, \<^verbatim>\<open>list_files\<close> raises the
  \<^verbatim>\<open>KeyError\<close> of the first corrupt sidecar and returns no summary.
\<close>

theorem list_files_corrupt_sidecar_raises:
  "\<not> corrupt pyref (ref_dumps True example_metadata)
   \<and> \<not> corrupt pyref (ref_dumps True example_metadata2)
   \<and> corrupt pyref (ref_dumps True (PDict [(''id'', PStr ''f3'')]))
   \<and> corrupt pyref ''not json''
   \<and> list_files pyref example_dir_bad = Inl (KeyError ''original_name'')"
proof -
  have "collect_files pyref (sidecars example_dir_bad) = Inl (KeyError ''original_name'')"
    unfolding example_sidecars
    by (rule collect_files_first_error) (simp_all add: endswith_def corrupt_def example_errors)
  then have "list_files pyref example_dir_bad = Inl (KeyError ''original_name'')"
    using collect_files_sidecars [of pyref example_dir_bad] by (simp add: list_files_def)
  then show ?thesis by (simp add: corrupt_def example_errors)
qed

text \<open>
  C1, amended. Over a directory in which at least one sidecar is corrupt (its text
  does not parse, it is not a mapping, or a required field is missing) \<^verbatim>\<open>list_files\<close>
  raises the exception of the first corrupt sidecar in the order of enumeration, and
  returns no summary. Over a directory in which no sidecar is corrupt and every upload
  time is a string, it returns the summaries of all the sidecars, sorted by upload
  time, latest first.
\<close>

theorem list_files_all_or_nothing:
  "(sidecars dir = good @ f # rest \<and> (\<forall>g \<in> set good. \<not> corrupt L (snd g))
      \<and> sidecar_error L (snd f) = Some e
      \<longrightarrow> list_files L dir = Inl e)
   \<and> ((\<forall>f \<in> set (sidecars dir).
          \<not> corrupt L (snd f) \<and> is_str (upload_time_key (summary_of L (snd f)))) \<longrightarrow>
        (\<exists>r. list_files L dir = Inr r
            \<and> mset r = mset (map (\<lambda>f. summary_of L (snd f)) (sidecars dir))
            \<and> sorted_wrt (\<lambda>a b. str_of (upload_time_key b) \<le> str_of (upload_time_key a)) r))"
proof (intro conjI impI)
  assume a: "sidecars dir = good @ f # rest \<and> (\<forall>g \<in> set good. \<not> corrupt L (snd g))
      \<and> sidecar_error L (snd f) = Some e"
  have "\<forall>g \<in> set (sidecars dir). endswith ''.json'' (fst g)" by (simp add: sidecars_def)
  with a have "\<forall>g \<in> set (good @ f # rest). endswith ''.json'' (fst g)" by simp
  from collect_files_first_error [OF this] a
  have "collect_files L (good @ f # rest) = Inl e" by blast
  with a have "collect_files L dir = Inl e" using collect_files_sidecars [of L dir] by simp
  then show "list_files L dir = Inl e" by (simp add: list_files_def)
next
  assume a: "\<forall>f \<in> set (sidecars dir).
          \<not> corrupt L (snd f) \<and> is_str (upload_time_key (summary_of L (snd f)))"
  let ?files = "map (\<lambda>f. summary_of L (snd f)) (sidecars dir)"
  let ?kxs = "map (\<lambda>x. (upload_time_key x, x)) ?files"
  from a have c: "collect_files L dir = Inr ?files" by (simp add: collect_files_ok)
  from a have "\<forall>y \<in> set ?kxs. is_str (fst y)" by auto
  from sorted_rev_str [OF this] obtain zs where zs: "sorted_rev ?kxs = Inr zs"
    "mset zs = mset ?kxs" "sorted_wrt (\<lambda>a b. str_of (fst b) \<le> str_of (fst a)) zs" by blast
  have l: "list_files L dir = Inr (map snd zs)" using c zs(1) by (simp add: list_files_def)
  have "mset (map snd zs) = mset (map snd ?kxs)" using zs(2) by (metis mset_map)
  then have m: "mset (map snd zs) = mset ?files" by (simp add: comp_def)
  from zs(2) have "set zs = set ?kxs" by (rule mset_eq_setD)
  then have k: "\<forall>p \<in> set zs. fst p = upload_time_key (snd p)" by auto
  have s: "sorted_wrt (\<lambda>a b. str_of (upload_time_key b) \<le> str_of (upload_time_key a)) (map snd zs)"
    unfolding sorted_wrt_map
    by (rule sorted_wrt_mono_rel [OF _ zs(3)]) (simp add: k)
  from l m s show "\<exists>r. list_files L dir = Inr r
            \<and> mset r = mset (map (\<lambda>f. summary_of L (snd f)) (sidecars dir))
            \<and> sorted_wrt (\<lambda>a b. str_of (upload_time_key b) \<le> str_of (upload_time_key a)) r"
    by blast
qed

theorem list_files_all_or_nothing_witness:
  "list_files pyref example_dir_bad = Inl (KeyError ''original_name'')
   \<and> list_files pyref example_dir2
       = Inr [PDict [(''id'', PStr ''f2''), (''name'', PStr ''notes.txt''),
                     (''upload_time'', PStr ''2024-06-01T08:30:00''), (''size'', PInt 5)],
              PDict [(''id'', PStr ''f1''), (''name'', PStr ''report.xlsx''),
                     (''upload_time'', PStr ''2024-05-01T10:00:00''), (''size'', PInt 4)]]"
proof -
  let ?s1 = "PDict [(''id'', PStr ''f1''), (''name'', PStr ''report.xlsx''),
                     (''upload_time'', PStr ''2024-05-01T10:00:00''), (''size'', PInt 4)]"
  let ?s2 = "PDict [(''id'', PStr ''f2''), (''name'', PStr ''notes.txt''),
                     (''upload_time'', PStr ''2024-06-01T08:30:00''), (''size'', PInt 5)]"
  let ?good = "[(''f1.json'', ref_dumps True example_metadata),
                (''f2.json'', ref_dumps True example_metadata2)]"
  have b: "sidecars example_dir_bad
             = ?good @ (''f3.json'', ref_dumps True (PDict [(''id'', PStr ''f3'')]))
                 # [(''f4.json'', ''not json'')]
           \<and> (\<forall>g \<in> set ?good. \<not> corrupt pyref (snd g))
           \<and> sidecar_error pyref (snd (''f3.json'', ref_dumps True (PDict [(''id'', PStr ''f3'')])))
               = Some (KeyError ''original_name'')"
    by (simp add: example_sidecars corrupt_def example_errors)
  have sm: "summary_of pyref (ref_dumps True example_metadata) = ?s1"
           "summary_of pyref (ref_dumps True example_metadata2) = ?s2"
    by (simp_all add: summary_of_def example_sidecar_loads example_summary)
  have k: "upload_time_key ?s1 = PStr ''2024-05-01T10:00:00''"
          "upload_time_key ?s2 = PStr ''2024-06-01T08:30:00''"
    by (simp_all add: upload_time_key_def py_getitem_def)
  have g: "\<forall>f \<in> set (sidecars example_dir2).
          \<not> corrupt pyref (snd f) \<and> is_str (upload_time_key (summary_of pyref (snd f)))"
    by (simp add: example_sidecars corrupt_def example_errors sm k is_str_def)
  from list_files_all_or_nothing [of example_dir_bad ?good _ _ pyref "KeyError ''original_name''"] b
  have 1: "list_files pyref example_dir_bad = Inl (KeyError ''original_name'')" by blast
  from list_files_all_or_nothing [of example_dir2 _ _ _ pyref] g
  obtain r where r: "list_files pyref example_dir2 = Inr r"
    "mset r = mset (map (\<lambda>f. summary_of pyref (snd f)) (sidecars example_dir2))"
    "sorted_wrt (\<lambda>a b. str_of (upload_time_key b) \<le> str_of (upload_time_key a)) r" by blast
  from r(2) have "mset r = {#?s1, ?s2#}" by (simp add: example_sidecars sm)
  then have "r = [?s1, ?s2] \<or> r = [?s2, ?s1]" by (rule mset_two)
  moreover have "\<not> sorted_wrt (\<lambda>a b. str_of (upload_time_key b) \<le> str_of (upload_time_key a))
                   [?s1, ?s2]"
    by (simp add: k str_of_def)
  ultimately have "r = [?s2, ?s1]" using r(3) by blast
  with r(1) 1 show ?thesis by simp
qed

subsection \<open>Upload\<close>

text \<open>
  C5 fails on the code for a file whose extension is \<^verbatim>\<open>.json\<close>: the stored name
  \<^verbatim>\<open>{identifier}.json\<close> is the name of the sidecar, so the sidecar is written over the
  binary. After the upload of \<^verbatim>\<open>report.json\<close> into an empty directory there is one file,
  and it holds the metadata, not the uploaded content.
\<close>

theorem upload_json_collision:
  "fst (upload_file pyref [] ''f1'' ''2024-05-01T10:00:00'' (Some ''report.json'') ''DATA'')
     = Inr (PDict [(''message'', PStr ''File uploaded successfully''), (''file_id'', PStr ''f1'')])
   \<and> map fst (snd (upload_file pyref [] ''f1'' ''2024-05-01T10:00:00'' (Some ''report.json'') ''DATA''))
     = [''f1.json'']
   \<and> map_of (snd (upload_file pyref [] ''f1'' ''2024-05-01T10:00:00'' (Some ''report.json'') ''DATA''))
        ''f1.json''
     = Some (ref_dumps True (PDict
         [(''id'', PStr ''f1''), (''original_name'', PStr ''report.json''),
          (''stored_name'', PStr ''f1.json''), (''upload_time'', PStr ''2024-05-01T10:00:00''),
          (''size'', PInt 4)]))
   \<and> ref_dumps True (PDict
         [(''id'', PStr ''f1''), (''original_name'', PStr ''report.json''),
          (''stored_name'', PStr ''f1.json''), (''upload_time'', PStr ''2024-05-01T10:00:00''),
          (''size'', PInt 4)]) \<noteq> ''DATA''"
  by (simp add: upload_file_def path_suffix_def path_name_def rfind_dot_def Let_def ref_dumps_def)

text \<open>
  For every other extension the upload does what C5 says, when the identifier is
  fresh: two distinct new files, the binary under \<^verbatim>\<open>{identifier}{extension}\<close> and the
  sidecar with the five fields, every other file as it was, and the identifier in the
  response.
\<close>

lemma upload_creates_two_files:
  assumes "fname \<noteq> []"
    and "path_suffix fname \<noteq> ''.json''"
    and "file_id @ path_suffix fname \<notin> fst ` set dir"
    and "file_id @ ''.json'' \<notin> fst ` set dir"
  shows "\<exists>dir'. upload_file L dir file_id now (Some fname) content
           = (Inr (PDict [(''message'', PStr ''File uploaded successfully''),
                          (''file_id'', PStr file_id)]), dir')
       \<and> fst ` set dir' = fst ` set dir \<union> {file_id @ path_suffix fname, file_id @ ''.json''}
       \<and> file_id @ path_suffix fname \<noteq> file_id @ ''.json''
       \<and> map_of dir' (file_id @ path_suffix fname) = Some content
       \<and> map_of dir' (file_id @ ''.json'')
           = Some (json_dumps L True (PDict
               [(''id'', PStr file_id), (''original_name'', PStr fname),
                (''stored_name'', PStr (file_id @ path_suffix fname)),
                (''upload_time'', PStr now), (''size'', PInt (int (length content)))]))
       \<and> (\<forall>n. n \<in> fst ` set dir \<longrightarrow> map_of dir' n = map_of dir n)"
proof -
  let ?bin = "file_id @ path_suffix fname"
  let ?meta = "file_id @ ''.json''"
  let ?text = "json_dumps L True (PDict
               [(''id'', PStr file_id), (''original_name'', PStr fname),
                (''stored_name'', PStr ?bin),
                (''upload_time'', PStr now), (''size'', PInt (int (length content)))])"
  let ?dir' = "AList.update ?meta ?text (AList.update ?bin content dir)"
  have u: "upload_file L dir file_id now (Some fname) content
           = (Inr (PDict [(''message'', PStr ''File uploaded successfully''),
                          (''file_id'', PStr file_id)]), ?dir')"
    using assms(1) by (simp add: upload_file_def Let_def)
  have ne: "?bin \<noteq> ?meta" using assms(2) by simp
  have names: "fst ` set ?dir' = fst ` set dir \<union> {?bin, ?meta}"
    by (auto simp add: dom_update)
  have b: "map_of ?dir' ?bin = Some content" using ne by (simp add: update_conv')
  have m: "map_of ?dir' ?meta = Some ?text" by (simp add: update_conv')
  have f: "\<forall>n. n \<in> fst ` set dir \<longrightarrow> map_of ?dir' n = map_of dir n"
    using assms(3,4) by (auto simp add: update_conv')
  from u ne names b m f show ?thesis by blast
qed

section \<open>Session configurations\<close>

subsection \<open>The text of an integer determines it\<close>

declare str_nat.simps [simp del]

lemma digit_val_digit_char: "d < 10 \<Longrightarrow> digit_val (digit_char d) = d"
proof -
  assume "d < 10"
  then have "d = 0 \<or> d = 1 \<or> d = 2 \<or> d = 3 \<or> d = 4 \<or> d = 5 \<or> d = 6 \<or> d = 7 \<or> d = 8 \<or> d = 9"
    by arith
  then show ?thesis
    by (elim disjE) (simp_all add: digit_val_def digit_char_def)
qed

lemma nat_of_digits_snoc: "nat_of_digits (ds @ [c]) = 10 * nat_of_digits ds + digit_val c"
  by (simp add: nat_of_digits_def)

lemma nat_of_digits_str_nat: "nat_of_digits (str_nat n) = n"
proof (induction n rule: str_nat.induct)
  case (1 n)
  show ?case
  proof (cases "n < 10")
    case True
    then show ?thesis
      by (subst str_nat.simps) (simp add: nat_of_digits_def digit_val_digit_char)
  next
    case False
    with 1 have "nat_of_digits (str_nat (n div 10)) = n div 10" by simp
    with False show ?thesis
      by (subst str_nat.simps) (simp add: nat_of_digits_snoc digit_val_digit_char)
  qed
qed

lemma str_nat_inj: "str_nat m = str_nat n \<Longrightarrow> m = n"
  by (metis nat_of_digits_str_nat)

lemma digit_char_not_minus: "digit_char d \<noteq> CHR ''-''"
proof -
  have "d mod 10 < 10" by simp
  then have "d mod 10 = 0 \<or> d mod 10 = 1 \<or> d mod 10 = 2 \<or> d mod 10 = 3 \<or> d mod 10 = 4
     \<or> d mod 10 = 5 \<or> d mod 10 = 6 \<or> d mod 10 = 7 \<or> d mod 10 = 8 \<or> d mod 10 = 9"
    by arith
  then show ?thesis
    by (elim disjE) (simp_all add: digit_char_def)
qed

lemma str_nat_no_minus: "CHR ''-'' \<notin> set (str_nat n)"
proof (induction n rule: str_nat.induct)
  case (1 n)
  show ?case
  proof (cases "n < 10")
    case True
    then show ?thesis
      using digit_char_not_minus [of n] by (subst str_nat.simps) auto
  next
    case False
    with 1 have "CHR ''-'' \<notin> set (str_nat (n div 10))" by simp
    with False show ?thesis
      using digit_char_not_minus [of "n mod 10"] by (subst str_nat.simps) auto
  qed
qed

lemma str_nat_not_minus: "str_nat n \<noteq> CHR ''-'' # r"
  using str_nat_no_minus [of n] by auto

lemma str_int_inj: "str_int i = str_int j \<Longrightarrow> i = j"
proof -
  assume e: "str_int i = str_int j"
  show ?thesis
  proof (cases "i < 0"; cases "j < 0")
    assume "i < 0" "j < 0"
    with e have "str_nat (nat (- i)) = str_nat (nat (- j))" by (simp add: str_int_def)
    then have "nat (- i) = nat (- j)" by (rule str_nat_inj)
    with \<open>i < 0\<close> \<open>j < 0\<close> show ?thesis by simp
  next
    assume "i < 0" "\<not> j < 0"
    with e show ?thesis using str_nat_not_minus [of "nat j"] by (simp add: str_int_def) metis
  next
    assume "\<not> i < 0" "j < 0"
    with e show ?thesis using str_nat_not_minus [of "nat i"] by (simp add: str_int_def)
  next
    assume "\<not> i < 0" "\<not> j < 0"
    with e have "str_nat (nat i) = str_nat (nat j)" by (simp add: str_int_def)
    then have "nat i = nat j" by (rule str_nat_inj)
    with \<open>\<not> i < 0\<close> \<open>\<not> j < 0\<close> show ?thesis by simp
  qed
qed

lemma edit_key_eq: "(edit_key file_id t1 = edit_key file_id t2) = (py_trunc t1 = py_trunc t2)"
  using str_int_inj by (auto simp add: edit_key_def)


subsection \<open>The handlers\<close>

lemma attach_token_returns: "(\<exists>r. attach_token L env c p = Inr r) = signs L env c p"
  by (auto simp add: attach_token_def signs_def signing_def is_str_def is_list_def
      split: sum.splits pyval.splits)

lemma attach_token_Inr:
  assumes "attach_token L env c p = Inr r"
  shows "\<exists>d. r = PDict d
           \<and> (\<forall>k. k \<noteq> ''token'' \<longrightarrow> map_of d k = map_of p k)
           \<and> ((map_of d ''token'' \<noteq> None) = (map_of p ''token'' \<noteq> None \<or> signing L env c))"
proof (cases "signing L env c")
  case True
  with assms obtain tok where "r = PDict (AList.update ''token'' (PStr tok) p)"
    by (auto simp add: attach_token_def signing_def split: sum.splits pyval.splits)
  with True show ?thesis by (simp add: update_conv')
next
  case False
  with assms have "r = PDict p" by (auto simp add: attach_token_def signing_def)
  with False show ?thesis by simp
qed

lemma editor_prefix:
  "sidecar_name L dir file_id = None \<Longrightarrow> \<exists>e. get_editor_config L env c dir t file_id = Inl e"
  "sidecar_name L dir file_id = Some name \<Longrightarrow>
     get_editor_config L env c dir t file_id
       = attach_token L env c
           (editor_payload L env c file_id t name (py_lower L (path_suffix name)))"
  by (auto simp add: sidecar_name_def get_editor_config_def load_metadata_def
      original_extension_def split: option.splits sum.splits pyval.splits)

lemma preview_prefix:
  "sidecar_name L dir file_id = None \<Longrightarrow> \<exists>e. get_preview_config L env c dir t file_id = Inl e"
  "sidecar_name L dir file_id = Some name \<Longrightarrow>
     get_preview_config L env c dir t file_id
       = attach_token L env c
           (preview_payload L env c file_id t name (py_lower L (path_suffix name)))"
  by (auto simp add: sidecar_name_def get_preview_config_def load_metadata_def
      original_extension_def split: option.splits sum.splits pyval.splits)

lemma editor_returns:
  "(\<exists>cfg. get_editor_config L env c dir t file_id = Inr cfg)
     = (case sidecar_name L dir file_id of
          None \<Rightarrow> False
        | Some name \<Rightarrow>
            signs L env c (editor_payload L env c file_id t name (py_lower L (path_suffix name))))"
proof (cases "sidecar_name L dir file_id")
  case None
  from editor_prefix(1) [OF this, of env c t] None show ?thesis by auto
next
  case (Some name)
  from editor_prefix(2) [OF this] Some show ?thesis by (simp add: attach_token_returns)
qed

lemma preview_returns:
  "(\<exists>cfg. get_preview_config L env c dir t file_id = Inr cfg)
     = (case sidecar_name L dir file_id of
          None \<Rightarrow> False
        | Some name \<Rightarrow>
            signs L env c (preview_payload L env c file_id t name (py_lower L (path_suffix name))))"
proof (cases "sidecar_name L dir file_id")
  case None
  from preview_prefix(1) [OF this, of env c t] None show ?thesis by auto
next
  case (Some name)
  from preview_prefix(2) [OF this] Some show ?thesis by (simp add: attach_token_returns)
qed

lemma editor_key:
  assumes "get_editor_config L env c dir t file_id = Inr cfg"
  shows "walk cfg [''document'', ''key''] = Some (PStr (edit_key file_id t))"
proof (cases "sidecar_name L dir file_id")
  case None
  from editor_prefix(1) [OF this, of env c t] assms show ?thesis by auto
next
  case (Some name)
  let ?p = "editor_payload L env c file_id t name (py_lower L (path_suffix name))"
  from editor_prefix(2) [OF Some] assms have "attach_token L env c ?p = Inr cfg" by simp
  from attach_token_Inr [OF this] obtain d where
    d: "cfg = PDict d" "\<forall>k. k \<noteq> ''token'' \<longrightarrow> map_of d k = map_of ?p k" by blast
  from d(2) have "map_of d ''document'' = map_of ?p ''document''" by simp
  with d(1) show ?thesis by (simp add: editor_payload_def)
qed

lemma preview_mode_token:
  assumes "get_preview_config L env c dir t file_id = Inr cfg"
  shows "walk cfg [''editorConfig'', ''mode''] = Some (PStr ''view'')"
    and "has_token cfg = signing L env c"
proof -
  obtain name where n: "sidecar_name L dir file_id = Some name"
    using preview_prefix(1) [of L dir file_id env c t] assms by (cases "sidecar_name L dir file_id") auto
  let ?p = "preview_payload L env c file_id t name (py_lower L (path_suffix name))"
  from preview_prefix(2) [OF n] assms have "attach_token L env c ?p = Inr cfg" by simp
  from attach_token_Inr [OF this] obtain d where
    d: "cfg = PDict d" "\<forall>k. k \<noteq> ''token'' \<longrightarrow> map_of d k = map_of ?p k"
       "(map_of d ''token'' \<noteq> None) = (map_of ?p ''token'' \<noteq> None \<or> signing L env c)" by blast
  from d(2) have "map_of d ''editorConfig'' = map_of ?p ''editorConfig''" by simp
  with d(1) show "walk cfg [''editorConfig'', ''mode''] = Some (PStr ''view'')"
    by (simp add: preview_payload_def)
  from d(1,3) show "has_token cfg = signing L env c"
    by (simp add: has_token_def preview_payload_def)
qed

lemma trunc_examples:
  "py_trunc (6800000001 / 4) = 1700000000" "py_trunc (6800000003 / 4) = 1700000000"
  "py_trunc (6800000005 / 4) = 1700000001"
  by (simp_all add: py_trunc_def) code_simp+

lemma str_seconds:
  "str_int 1700000000 = ''1700000000''" "str_int 1700000001 = ''1700000001''"
  by (simp_all add: str_int_def str_nat.simps digit_char_def)

lemma example_sidecar_name:
  "sidecar_name pyref example_dir ''f1'' = Some ''report.xlsx''"
  "sidecar_name pyref example_dir_bad ''f3'' = None"
  "sidecar_name pyref example_dir_bad ''f4'' = None"
  by (simp_all add: sidecar_name_def example_dir_def example_dir_bad_def example_dir2_def
      example_sidecar_loads example_sidecar_loads_unfolded not_json py_getitem_def
      example_metadata_def)

lemma example_env_keys:
  "env_key pyref ''onlyoffice.jwt_enabled'' = ''ONLYOFFICE_JWT_ENABLED''"
  "env_key pyref ''onlyoffice.secret'' = ''ONLYOFFICE_SECRET''"
  by (simp_all add: env_key_def ascii_upper_def upper_char_def replace_char_def)

lemma numeric_secret:
  "onlyoffice_secret pyref [''ONLYOFFICE_SECRET'' \<mapsto> ''12345''] default_conf = PInt 12345"
  "Config_get pyref [''ONLYOFFICE_SECRET'' \<mapsto> ''12345''] default_conf
     ''onlyoffice.jwt_enabled'' (PBool True) = PBool True"
  by (simp_all add: onlyoffice_secret_def Config_get_def example_env_keys convert_env_value_def
      num_defs default_conf_def default_config_def default_items_def split_on.simps)

lemma signing_off:
  "onlyoffice_secret pyref [''ONLYOFFICE_JWT_ENABLED'' \<mapsto> ''false''] default_conf
     = PStr ''wIUxuAv0mXxom895nEGPKG3Bw3hm''"
  "Config_get pyref [''ONLYOFFICE_JWT_ENABLED'' \<mapsto> ''false''] default_conf
     ''onlyoffice.jwt_enabled'' (PBool True) = PBool False"
  by (simp_all add: onlyoffice_secret_def Config_get_def example_env_keys convert_env_value_def
      num_defs default_conf_def default_config_def default_items_def split_on.simps)

text \<open>
  C2, as the specification states it, fails. Two calls of \<^verbatim>\<open>get_editor_config\<close> for the
  same identifier, a half second apart within one second of the clock, return the same
  session key. A call returns no configuration at all when the secret is the integer
  that \<^verbatim>\<open>ONLYOFFICE_SECRET=12345\<close> is coerced to (signing raises \<^verbatim>\<open>TypeError\<close>), when the
  sidecar lacks \<^verbatim>\<open>original_name\<close>, or when the sidecar is not JSON.
\<close>

theorem same_second_same_key:
  "(6800000001 / 4 :: rat) < 6800000003 / 4
   \<and> session_key (get_editor_config pyref no_env default_conf example_dir (6800000001 / 4) ''f1'')
       = Some (PStr ''edit_f1_1700000000'')
   \<and> session_key (get_editor_config pyref no_env default_conf example_dir (6800000003 / 4) ''f1'')
       = Some (PStr ''edit_f1_1700000000'')
   \<and> get_editor_config pyref [''ONLYOFFICE_SECRET'' \<mapsto> ''12345''] default_conf example_dir
         (6800000001 / 4) ''f1'' = Inl TypeError
   \<and> get_editor_config pyref no_env default_conf example_dir_bad (6800000001 / 4) ''f3''
       = Inl (KeyError ''original_name'')
   \<and> get_editor_config pyref no_env default_conf example_dir_bad (6800000001 / 4) ''f4''
       = Inl JSONDecodeError"
proof -
  have a: "\<And>t. get_editor_config pyref no_env default_conf example_dir t ''f1''
        = Inr (PDict (AList.update ''token''
                 (PStr ''jwt.wIUxuAv0mXxom895nEGPKG3Bw3hm'')
                 (editor_payload pyref no_env default_conf ''f1'' t ''report.xlsx'' ''.xlsx'')))"
    by (simp add: get_editor_config_def example_load_metadata example_original_extension
        attach_token_def default_secret default_jwt_enabled ref_jwt_encode_def)
  have k: "\<And>t. walk (PDict (AList.update ''token''
                 (PStr ''jwt.wIUxuAv0mXxom895nEGPKG3Bw3hm'')
                 (editor_payload pyref no_env default_conf ''f1'' t ''report.xlsx'' ''.xlsx'')))
               [''document'', ''key''] = Some (PStr (edit_key ''f1'' t))"
    by (simp add: editor_payload_def update_conv')
  have b: "get_editor_config pyref [''ONLYOFFICE_SECRET'' \<mapsto> ''12345''] default_conf example_dir
         (6800000001 / 4) ''f1'' = Inl TypeError"
    by (simp add: get_editor_config_def example_load_metadata example_original_extension
        attach_token_def numeric_secret ref_jwt_encode_def)
  have c: "get_editor_config pyref no_env default_conf example_dir_bad (6800000001 / 4) ''f3''
       = Inl (KeyError ''original_name'')"
    by (simp add: get_editor_config_def load_metadata_def example_dir_bad_def example_dir2_def
        example_dir_def example_sidecar_loads_unfolded original_extension_def py_getitem_def)
  have d: "get_editor_config pyref no_env default_conf example_dir_bad (6800000001 / 4) ''f4''
       = Inl JSONDecodeError"
    by (simp add: get_editor_config_def load_metadata_def example_dir_bad_def example_dir2_def
        example_dir_def not_json)
  show ?thesis
    by (simp add: a k b c d session_key_def edit_key_def trunc_examples str_seconds
        del: walk.simps)
qed

text \<open>
  C2, amended. A call of \<^verbatim>\<open>get_editor_config\<close> returns a configuration exactly when the
  sidecar of the identifier exists, parses and holds a string \<^verbatim>\<open>original_name\<close>, and
  signing is off or the secret is a string or a list for which \<^verbatim>\<open>jwt.encode\<close> returns a
  token; otherwise it raises. When two calls for the same identifier return, the
  \<^verbatim>\<open>document.key\<close> of each is \<^verbatim>\<open>edit_{identifier}_{seconds}\<close>, and the two keys differ
  exactly when the two readings of the clock fall in different whole seconds.
\<close>

theorem edit_keys_differ_across_seconds:
  "((\<exists>cfg. get_editor_config L env c dir t file_id = Inr cfg)
      = (case sidecar_name L dir file_id of
           None \<Rightarrow> False
         | Some name \<Rightarrow>
             signs L env c
               (editor_payload L env c file_id t name (py_lower L (path_suffix name)))))
   \<and> (get_editor_config L env c dir t1 file_id = Inr cfg1
      \<and> get_editor_config L env c dir t2 file_id = Inr cfg2 \<longrightarrow>
        walk cfg1 [''document'', ''key''] = Some (PStr (edit_key file_id t1))
      \<and> walk cfg2 [''document'', ''key''] = Some (PStr (edit_key file_id t2))
      \<and> ((walk cfg1 [''document'', ''key''] = walk cfg2 [''document'', ''key''])
           = (py_trunc t1 = py_trunc t2)))"
proof (intro conjI impI)
  show "(\<exists>cfg. get_editor_config L env c dir t file_id = Inr cfg)
      = (case sidecar_name L dir file_id of
           None \<Rightarrow> False
         | Some name \<Rightarrow>
             signs L env c
               (editor_payload L env c file_id t name (py_lower L (path_suffix name))))"
    by (rule editor_returns)
next
  assume a: "get_editor_config L env c dir t1 file_id = Inr cfg1
      \<and> get_editor_config L env c dir t2 file_id = Inr cfg2"
  then have k: "walk cfg1 [''document'', ''key''] = Some (PStr (edit_key file_id t1))"
    "walk cfg2 [''document'', ''key''] = Some (PStr (edit_key file_id t2))"
    by (auto intro: editor_key)
  from k show "walk cfg1 [''document'', ''key''] = Some (PStr (edit_key file_id t1))" by simp
  from k show "walk cfg2 [''document'', ''key''] = Some (PStr (edit_key file_id t2))" by simp
  from k show "(walk cfg1 [''document'', ''key''] = walk cfg2 [''document'', ''key''])
           = (py_trunc t1 = py_trunc t2)"
    by (simp add: edit_key_eq)
qed

theorem edit_keys_differ_across_seconds_witness:
  "\<exists>cfg1 cfg2.
      get_editor_config pyref no_env default_conf example_dir (6800000001 / 4) ''f1'' = Inr cfg1
    \<and> get_editor_config pyref no_env default_conf example_dir (6800000005 / 4) ''f1'' = Inr cfg2
    \<and> walk cfg1 [''document'', ''key''] = Some (PStr ''edit_f1_1700000000'')
    \<and> walk cfg2 [''document'', ''key''] = Some (PStr ''edit_f1_1700000001'')
    \<and> walk cfg1 [''document'', ''key''] \<noteq> walk cfg2 [''document'', ''key'']"
proof -
  have s: "\<And>p. signs pyref no_env default_conf p"
    by (simp add: signs_def default_secret is_str_def ref_jwt_encode_def)
  note th = edit_keys_differ_across_seconds [where L = pyref and env = no_env
      and c = default_conf and dir = example_dir and file_id = "''f1''"]
  from th [where t = "6800000001 / 4", THEN conjunct1] obtain cfg1 where
    1: "get_editor_config pyref no_env default_conf example_dir (6800000001 / 4) ''f1'' = Inr cfg1"
    by (auto simp add: example_sidecar_name s)
  from th [where t = "6800000005 / 4", THEN conjunct1] obtain cfg2 where
    2: "get_editor_config pyref no_env default_conf example_dir (6800000005 / 4) ''f1'' = Inr cfg2"
    by (auto simp add: example_sidecar_name s)
  from th [where ?t1.0 = "6800000001 / 4" and ?t2.0 = "6800000005 / 4"
      and ?cfg1.0 = cfg1 and ?cfg2.0 = cfg2, THEN conjunct2] 1 2
  have "walk cfg1 [''document'', ''key''] = Some (PStr ''edit_f1_1700000000'')
    \<and> walk cfg2 [''document'', ''key''] = Some (PStr ''edit_f1_1700000001'')
    \<and> walk cfg1 [''document'', ''key''] \<noteq> walk cfg2 [''document'', ''key'']"
    by (simp add: edit_key_def trunc_examples str_seconds del: walk.simps)
  with 1 2 show ?thesis by blast
qed

text \<open>
  C7, as the specification states it, fails: for an identifier with a well-formed
  sidecar, with signing enabled and the secret that \<^verbatim>\<open>ONLYOFFICE_SECRET=12345\<close> is coerced
  to (the integer 12345, which is true), \<^verbatim>\<open>get_preview_config\<close> raises \<^verbatim>\<open>TypeError\<close> and
  returns no configuration. It returns none either when the sidecar lacks
  \<^verbatim>\<open>original_name\<close> or is not JSON.
\<close>

theorem preview_numeric_secret_raises:
  "sidecar_name pyref example_dir ''f1'' = Some ''report.xlsx''
   \<and> signing pyref [''ONLYOFFICE_SECRET'' \<mapsto> ''12345''] default_conf
   \<and> get_preview_config pyref [''ONLYOFFICE_SECRET'' \<mapsto> ''12345''] default_conf example_dir
         (6800000001 / 4) ''f1'' = Inl TypeError
   \<and> get_preview_config pyref no_env default_conf example_dir_bad (6800000001 / 4) ''f3''
       = Inl (KeyError ''original_name'')
   \<and> get_preview_config pyref no_env default_conf example_dir_bad (6800000001 / 4) ''f4''
       = Inl JSONDecodeError"
proof -
  have b: "get_preview_config pyref [''ONLYOFFICE_SECRET'' \<mapsto> ''12345''] default_conf example_dir
         (6800000001 / 4) ''f1'' = Inl TypeError"
    by (simp add: get_preview_config_def example_load_metadata example_original_extension
        attach_token_def numeric_secret ref_jwt_encode_def)
  have c: "get_preview_config pyref no_env default_conf example_dir_bad (6800000001 / 4) ''f3''
       = Inl (KeyError ''original_name'')"
    by (simp add: get_preview_config_def load_metadata_def example_dir_bad_def example_dir2_def
        example_dir_def example_sidecar_loads_unfolded original_extension_def py_getitem_def)
  have d: "get_preview_config pyref no_env default_conf example_dir_bad (6800000001 / 4) ''f4''
       = Inl JSONDecodeError"
    by (simp add: get_preview_config_def load_metadata_def example_dir_bad_def example_dir2_def
        example_dir_def not_json)
  show ?thesis by (simp add: b c d example_sidecar_name signing_def numeric_secret)
qed

text \<open>
  C7, amended. A call of \<^verbatim>\<open>get_preview_config\<close> returns a configuration exactly when the
  sidecar of the identifier exists, parses and holds a string \<^verbatim>\<open>original_name\<close>, and
  signing is off or the secret is a string or a list for which \<^verbatim>\<open>jwt.encode\<close> returns a
  token; otherwise it raises. A configuration it returns has \<^verbatim>\<open>editorConfig.mode\<close> equal
  to \<^verbatim>\<open>view\<close>, and has a \<^verbatim>\<open>token\<close> field exactly when \<^verbatim>\<open>onlyoffice.jwt_enabled\<close> is true
  and the secret is true (not empty).
\<close>

theorem preview_is_view_and_token_iff_signing:
  "((\<exists>cfg. get_preview_config L env c dir t file_id = Inr cfg)
      = (case sidecar_name L dir file_id of
           None \<Rightarrow> False
         | Some name \<Rightarrow>
             signs L env c
               (preview_payload L env c file_id t name (py_lower L (path_suffix name)))))
   \<and> (get_preview_config L env c dir t file_id = Inr cfg \<longrightarrow>
        walk cfg [''editorConfig'', ''mode''] = Some (PStr ''view'')
      \<and> has_token cfg
          = (truthy (Config_get L env c ''onlyoffice.jwt_enabled'' (PBool True))
             \<and> truthy (onlyoffice_secret L env c)))"
proof (intro conjI impI)
  show "(\<exists>cfg. get_preview_config L env c dir t file_id = Inr cfg)
      = (case sidecar_name L dir file_id of
           None \<Rightarrow> False
         | Some name \<Rightarrow>
             signs L env c
               (preview_payload L env c file_id t name (py_lower L (path_suffix name))))"
    by (rule preview_returns)
next
  assume a: "get_preview_config L env c dir t file_id = Inr cfg"
  from preview_mode_token(1) [OF a]
  show "walk cfg [''editorConfig'', ''mode''] = Some (PStr ''view'')" .
  from preview_mode_token(2) [OF a]
  show "has_token cfg
          = (truthy (Config_get L env c ''onlyoffice.jwt_enabled'' (PBool True))
             \<and> truthy (onlyoffice_secret L env c))"
    by (auto simp add: signing_def)
qed

theorem preview_is_view_and_token_iff_signing_witness:
  "(\<exists>cfg. get_preview_config pyref no_env default_conf example_dir (6800000001 / 4) ''f1'' = Inr cfg
         \<and> walk cfg [''editorConfig'', ''mode''] = Some (PStr ''view'') \<and> has_token cfg)
   \<and> (\<exists>cfg. get_preview_config pyref [''ONLYOFFICE_JWT_ENABLED'' \<mapsto> ''false''] default_conf
               example_dir (6800000001 / 4) ''f1'' = Inr cfg
         \<and> walk cfg [''editorConfig'', ''mode''] = Some (PStr ''view'') \<and> \<not> has_token cfg)"
proof -
  let ?off = "[''ONLYOFFICE_JWT_ENABLED'' \<mapsto> ''false'']"
  have s: "\<And>p. signs pyref no_env default_conf p"
    by (simp add: signs_def default_secret is_str_def ref_jwt_encode_def)
  have s': "\<And>p. signs pyref ?off default_conf p"
    by (simp add: signs_def signing_def signing_off)
  note th = preview_is_view_and_token_iff_signing [where L = pyref and c = default_conf
      and dir = example_dir and file_id = "''f1''" and t = "6800000001 / 4"]
  from th [where env = no_env, THEN conjunct1] obtain cfg1 where
    1: "get_preview_config pyref no_env default_conf example_dir (6800000001 / 4) ''f1'' = Inr cfg1"
    by (auto simp add: example_sidecar_name s)
  from th [where env = "?off", THEN conjunct1] obtain cfg2 where
    2: "get_preview_config pyref ?off default_conf example_dir (6800000001 / 4) ''f1'' = Inr cfg2"
    by (auto simp add: example_sidecar_name s')
  from th [where env = no_env and cfg = cfg1, THEN conjunct2] 1
  have a: "walk cfg1 [''editorConfig'', ''mode''] = Some (PStr ''view'') \<and> has_token cfg1"
    by (simp add: default_secret default_jwt_enabled del: walk.simps)
  from th [where env = "?off" and cfg = cfg2, THEN conjunct2] 2
  have b: "walk cfg2 [''editorConfig'', ''mode''] = Some (PStr ''view'') \<and> \<not> has_token cfg2"
    by (simp add: signing_off del: walk.simps)
  from 1 2 a b show ?thesis by blast
qed

section \<open>The callback handler\<close>

text \<open>
  C8. When signing is enabled and the payload carries a token that fails verification,
  the handler answers \<^verbatim>\<open>{error: 1, message: "Invalid token"}\<close> and the upload directory
  is as it was: neither the stored binary nor the sidecar is written.
\<close>

theorem invalid_token_no_mutation:
  assumes "truthy (Config_get L env c ''onlyoffice.jwt_enabled'' (PBool True))"
    and "map_of request_data ''token'' = Some token"
    and "jwt_decode L token (onlyoffice_secret L env c) = Inl e"
  shows "onlyoffice_callback L env c dir now file_id request_data
         = (PDict [(''error'', PInt 1), (''message'', PStr ''Invalid token'')], dir)"
  using assms by (simp add: onlyoffice_callback_def verify_jwt_token_def)

theorem invalid_token_no_mutation_witness:
  "onlyoffice_callback pyref no_env default_conf example_dir ''2024-05-02T09:00:00'' ''f1''
     [(''status'', PInt 2), (''url'', PStr ''http://docs/new''), (''token'', PStr ''forged'')]
   = (PDict [(''error'', PInt 1), (''message'', PStr ''Invalid token'')], example_dir)
   \<and> status_branch pyref example_dir ''2024-05-02T09:00:00'' ''f1''
     [(''status'', PInt 2), (''url'', PStr ''http://docs/new''), (''token'', PStr ''forged'')]
   \<noteq> (ok_reply, example_dir)"
proof -
  let ?req = "[(''status'', PInt 2), (''url'', PStr ''http://docs/new''), (''token'', PStr ''forged'')]"
  have 1: "truthy (Config_get pyref no_env default_conf ''onlyoffice.jwt_enabled'' (PBool True))"
    by (simp add: default_jwt_enabled)
  have 2: "map_of ?req ''token'' = Some (PStr ''forged'')" by simp
  have 3: "jwt_decode pyref (PStr ''forged'') (onlyoffice_secret pyref no_env default_conf)
           = Inl InvalidTokenError"
    by (simp add: default_secret ref_jwt_decode_def)
  have 4: "status_branch pyref example_dir ''2024-05-02T09:00:00'' ''f1'' ?req \<noteq> (ok_reply, example_dir)"
    by (simp add: status_branch_def ref_http_get_def save_updated_def example_dir_def
        example_sidecar_loads_unfolded py_getitem_def py_setitem_def example_metadata_def)
  from invalid_token_no_mutation [OF 1 2 3] 4 show ?thesis by simp
qed

text \<open>
  C9. When the payload has no \<^verbatim>\<open>token\<close> field the handler goes to the branch on
  \<^verbatim>\<open>status\<close> whatever the configuration says, and its result does not depend on the
  decoder: no signature is verified. With \<^verbatim>\<open>status == 2\<close>, a URL that answers 200 and
  a sidecar that names the stored file, the stored binary is replaced by the body
  fetched and the sidecar gets \<^verbatim>\<open>last_modified\<close>.
\<close>

theorem tokenless_callback_unverified:
  assumes "map_of request_data ''token'' = None"
  shows "onlyoffice_callback L env c dir now file_id request_data
           = status_branch L dir now file_id request_data
       \<and> onlyoffice_callback (L\<lparr>jwt_decode := dec\<rparr>) env c dir now file_id request_data
           = onlyoffice_callback L env c dir now file_id request_data
       \<and> (map_of request_data ''status'' = Some status \<and> equals_two status
            \<and> map_of request_data ''url'' = Some url \<and> truthy url
            \<and> http_get L url = Inr (200, body)
            \<and> map_of dir (file_id @ ''.json'') = Some content
            \<and> json_loads L content = Some (PDict md)
            \<and> map_of md ''stored_name'' = Some (PStr stored_name)
          \<longrightarrow> onlyoffice_callback L env c dir now file_id request_data
                = (ok_reply,
                   AList.update (file_id @ ''.json'')
                     (json_dumps L True (PDict (AList.update ''last_modified'' (PStr now) md)))
                     (AList.update stored_name body dir)))"
proof -
  have a: "onlyoffice_callback L env c dir now file_id request_data
           = status_branch L dir now file_id request_data"
    using assms by (simp add: onlyoffice_callback_def)
  have b0: "\<And>e. error_reply (L\<lparr>jwt_decode := dec\<rparr>) e = error_reply L e"
    by (simp add: error_reply_def)
  have b1: "\<And>body. save_updated (L\<lparr>jwt_decode := dec\<rparr>) dir now file_id body
           = save_updated L dir now file_id body"
    by (simp add: save_updated_def b0 split: option.splits sum.splits pyval.splits)
  have b: "status_branch (L\<lparr>jwt_decode := dec\<rparr>) dir now file_id request_data
           = status_branch L dir now file_id request_data"
    by (simp add: status_branch_def b0 b1 split: option.splits sum.splits prod.splits)
  have b': "onlyoffice_callback (L\<lparr>jwt_decode := dec\<rparr>) env c dir now file_id request_data
           = status_branch (L\<lparr>jwt_decode := dec\<rparr>) dir now file_id request_data"
    using assms by (simp add: onlyoffice_callback_def)
  have c: "map_of request_data ''status'' = Some status \<and> equals_two status
            \<and> map_of request_data ''url'' = Some url \<and> truthy url
            \<and> http_get L url = Inr (200, body)
            \<and> map_of dir (file_id @ ''.json'') = Some content
            \<and> json_loads L content = Some (PDict md)
            \<and> map_of md ''stored_name'' = Some (PStr stored_name)
          \<longrightarrow> status_branch L dir now file_id request_data
                = (ok_reply,
                   AList.update (file_id @ ''.json'')
                     (json_dumps L True (PDict (AList.update ''last_modified'' (PStr now) md)))
                     (AList.update stored_name body dir))"
    by (simp add: status_branch_def save_updated_def py_getitem_def py_setitem_def)
  from a b b' c show ?thesis by simp
qed

theorem tokenless_callback_unverified_witness:
  "truthy (Config_get pyref no_env default_conf ''onlyoffice.jwt_enabled'' (PBool True))
   \<and> map_of example_dir ''f1.xlsx'' = Some ''DATA''
   \<and> fst (onlyoffice_callback pyref no_env default_conf example_dir ''2024-05-02T09:00:00'' ''f1''
            [(''status'', PInt 2), (''url'', PStr ''http://docs/new'')]) = ok_reply
   \<and> map_of (snd (onlyoffice_callback pyref no_env default_conf example_dir ''2024-05-02T09:00:00''
            ''f1'' [(''status'', PInt 2), (''url'', PStr ''http://docs/new'')])) ''f1.xlsx''
       = Some ''NEW''"
proof -
  let ?req = "[(''status'', PInt 2), (''url'', PStr ''http://docs/new'')]"
  have 0: "map_of ?req ''token'' = None" by simp
  have 1: "truthy (Config_get pyref no_env default_conf ''onlyoffice.jwt_enabled'' (PBool True))"
    by (simp add: default_jwt_enabled)
  have h: "map_of ?req ''status'' = Some (PInt 2) \<and> equals_two (PInt 2)
            \<and> map_of ?req ''url'' = Some (PStr ''http://docs/new'') \<and> truthy (PStr ''http://docs/new'')
            \<and> http_get pyref (PStr ''http://docs/new'') = Inr (200, ''NEW'')
            \<and> map_of example_dir (''f1'' @ ''.json'') = Some (ref_dumps True example_metadata)
            \<and> json_loads pyref (ref_dumps True example_metadata)
                = Some (PDict [(''id'', PStr ''f1''),
      (''original_name'', PStr ''report.xlsx''),
      (''stored_name'', PStr ''f1.xlsx''),
      (''upload_time'', PStr ''2024-05-01T10:00:00''),
      (''size'', PInt 4)])
            \<and> map_of [(''id'', PStr ''f1''),
      (''original_name'', PStr ''report.xlsx''),
      (''stored_name'', PStr ''f1.xlsx''),
      (''upload_time'', PStr ''2024-05-01T10:00:00''),
      (''size'', PInt 4)] ''stored_name'' = Some (PStr ''f1.xlsx'')"
    by (simp add: ref_http_get_def example_dir_def example_metadata_def example_sidecar_loads_unfolded)
  have d: "map_of example_dir ''f1.xlsx'' = Some ''DATA''" by (simp add: example_dir_def)
  from tokenless_callback_unverified [OF 0, where L = pyref and env = no_env and c = default_conf
      and dir = example_dir and now = "''2024-05-02T09:00:00''" and file_id = "''f1''"
      and status = "PInt 2" and url = "PStr ''http://docs/new''" and body = "''NEW''"
      and content = "ref_dumps True example_metadata" and stored_name = "''f1.xlsx''"] h
  have "onlyoffice_callback pyref no_env default_conf example_dir ''2024-05-02T09:00:00'' ''f1'' ?req
        = (ok_reply,
           AList.update (''f1'' @ ''.json'')
             (json_dumps pyref True (PDict (AList.update ''last_modified'' (PStr ''2024-05-02T09:00:00'') [(''id'', PStr ''f1''),
      (''original_name'', PStr ''report.xlsx''),
      (''stored_name'', PStr ''f1.xlsx''),
      (''upload_time'', PStr ''2024-05-01T10:00:00''),
      (''size'', PInt 4)])))
             (AList.update ''f1.xlsx'' ''NEW'' example_dir))"
    by blast
  then show ?thesis using 1 d by (simp add: example_dir_def update_conv')
qed

end
